theory Spec2Isabelle
  imports Main "HOL-Library.Word"
begin

unbundle bit_operations_syntax

section \<open>The LC-3 virtual machine of \<^verbatim>\<open>lc3-vm.c\<close>\<close>

text \<open>
  A shallow embedding of \<^verbatim>\<open>src/lc3-vm.c\<close>. A \<^verbatim>\<open>uint16_t\<close> is a \<open>16 word\<close>, a
  C \<^verbatim>\<open>int\<close> that holds an intermediate result is a \<open>32 word\<close>, the two global arrays
  and the local \<^verbatim>\<open>running\<close> are fields of one record, and the terminal is a pair of
  input lists and an output list in the same record. Where C leaves the behaviour of the
  program undefined (an index outside an array) or calls \<^verbatim>\<open>abort\<close> or \<^verbatim>\<open>exit\<close>, the
  model stops with a \<open>fault\<close> and the machine state of that moment. The host is the
  one the code is written for: little-endian, with a 32-bit \<^verbatim>\<open>int\<close> and a signed
  \<^verbatim>\<open>char\<close>.
\<close>

subsection \<open>Enumerations\<close>

text \<open>Register indices (lines 26-39).\<close>

definition R_R0 :: nat where "R_R0 = 0"
definition R_R1 :: nat where "R_R1 = 1"
definition R_R2 :: nat where "R_R2 = 2"
definition R_R3 :: nat where "R_R3 = 3"
definition R_R4 :: nat where "R_R4 = 4"
definition R_R5 :: nat where "R_R5 = 5"
definition R_R6 :: nat where "R_R6 = 6"
definition R_R7 :: nat where "R_R7 = 7"
definition R_PC :: nat where "R_PC = 8"
definition R_COND :: nat where "R_COND = 9"
definition R_COUNT :: nat where "R_COUNT = 10"

text \<open>Opcodes (lines 44-62).\<close>

definition OP_BR :: "16 word" where "OP_BR = 0"
definition OP_ADD :: "16 word" where "OP_ADD = 1"
definition OP_LD :: "16 word" where "OP_LD = 2"
definition OP_ST :: "16 word" where "OP_ST = 3"
definition OP_JSR :: "16 word" where "OP_JSR = 4"
definition OP_AND :: "16 word" where "OP_AND = 5"
definition OP_LDR :: "16 word" where "OP_LDR = 6"
definition OP_STR :: "16 word" where "OP_STR = 7"
definition OP_RTI :: "16 word" where "OP_RTI = 8"
definition OP_NOT :: "16 word" where "OP_NOT = 9"
definition OP_LDI :: "16 word" where "OP_LDI = 10"
definition OP_STI :: "16 word" where "OP_STI = 11"
definition OP_JMP :: "16 word" where "OP_JMP = 12"
definition OP_RES :: "16 word" where "OP_RES = 13"
definition OP_LEA :: "16 word" where "OP_LEA = 14"
definition OP_TRAP :: "16 word" where "OP_TRAP = 15"

text \<open>Condition flags (lines 67-72): \<^verbatim>\<open>1 << 0\<close>, \<^verbatim>\<open>1 << 1\<close>, \<^verbatim>\<open>1 << 2\<close>.\<close>

definition FL_POS :: "16 word" where "FL_POS = push_bit 0 1"
definition FL_ZRO :: "16 word" where "FL_ZRO = push_bit 1 1"
definition FL_NEG :: "16 word" where "FL_NEG = push_bit 2 1"

text \<open>Memory mapped registers (lines 77-81).\<close>

definition MR_KBSR :: "16 word" where "MR_KBSR = 0xFE00"
definition MR_KBDR :: "16 word" where "MR_KBDR = 0xFE02"

text \<open>Trap codes (lines 86-94).\<close>

definition TRAP_GETC :: "16 word" where "TRAP_GETC = 0x20"
definition TRAP_OUT :: "16 word" where "TRAP_OUT = 0x21"
definition TRAP_PUTS :: "16 word" where "TRAP_PUTS = 0x22"
definition TRAP_IN :: "16 word" where "TRAP_IN = 0x23"
definition TRAP_PUTSP :: "16 word" where "TRAP_PUTSP = 0x24"
definition TRAP_HALT :: "16 word" where "TRAP_HALT = 0x25"

text \<open>\<^verbatim>\<open>UINT16_MAX\<close> of \<^verbatim>\<open>stdint.h\<close>, the number of elements of \<^verbatim>\<open>memory\<close> (line 100).\<close>

definition UINT16_MAX :: nat where "UINT16_MAX = 65535"

text \<open>\<^verbatim>\<open>PC_START\<close> (line 282) and \<^verbatim>\<open>EOF\<close> of \<^verbatim>\<open>stdio.h\<close>.\<close>

definition PC_START :: "16 word" where "PC_START = 0x3000"
definition EOF :: int where "EOF = - 1"

subsection \<open>The machine\<close>

text \<open>
  \<^item> \<open>memory\<close> is the array \<^verbatim>\<open>uint16_t memory[UINT16_MAX]\<close>: its elements are the
    values at the addresses below \<open>UINT16_MAX\<close>. The value of the function at \<open>0xFFFF\<close>
    is no element of the array; no operation below reads or writes it.
  \<^item> \<open>reg\<close> is \<^verbatim>\<open>uint16_t reg[R_COUNT]\<close>; every index the program uses is a constant
    or a three-bit field, so it is below \<open>R_COUNT\<close>.
  \<^item> \<open>running\<close> is the local variable of \<^verbatim>\<open>main\<close>.
  \<^item> \<open>stdin\<close> holds the bytes that \<^verbatim>\<open>getchar\<close> will deliver, in order; after the
    last one \<^verbatim>\<open>getchar\<close> returns \<^verbatim>\<open>EOF\<close>. The time \<^verbatim>\<open>getchar\<close> waits is not modelled.
  \<^item> \<open>select_ready\<close> holds, for the successive calls of \<^verbatim>\<open>select\<close> in \<^verbatim>\<open>check_key\<close>,
    whether the call returns a value other than 0; when the list is used up the
    calls return 0.
  \<^item> \<open>stdout\<close> holds the bytes written so far.
\<close>

record machine =
  memory :: "16 word \<Rightarrow> 16 word"
  reg :: "nat \<Rightarrow> 16 word"
  running :: bool
  stdin :: "8 word list"
  select_ready :: "bool list"
  stdout :: "8 word list"

datatype fault =
  OutOfBounds     \<comment> \<open>an access to \<^verbatim>\<open>memory\<close> at an index that is not below \<open>UINT16_MAX\<close>\<close>
| IllegalOpcode   \<comment> \<open>the call of \<^verbatim>\<open>abort\<close> at line 554\<close>
| Exited int      \<comment> \<open>a call of \<^verbatim>\<open>exit\<close> with this status\<close>

type_synonym 'a result = "(fault \<times> machine) + 'a"

subsection \<open>Helpers (lines 105-141)\<close>

text \<open>
  \<^verbatim>\<open>sign_extend\<close>: \<^verbatim>\<open>x\<close> is promoted to \<^verbatim>\<open>int\<close>, \<^verbatim>\<open>0xFFFF << bit_count\<close> is an
  \<^verbatim>\<open>int\<close>, and the assignment to \<^verbatim>\<open>x\<close> keeps the low 16 bits. The \<^verbatim>\<open>int\<close> is 32 bits
  wide; for \<^verbatim>\<open>bit_count = 16\<close> the shift reaches the sign bit, which the model takes
  as the two's complement bit pattern. The callers pass 5, 6, 9 and 11; a
  \<^verbatim>\<open>bit_count\<close> below 1 (a negative shift count in C) is outside the model.
\<close>

definition sign_extend :: "16 word \<Rightarrow> nat \<Rightarrow> 16 word" where
  "sign_extend x bit_count =
     (if drop_bit (bit_count - 1) x AND 1 \<noteq> 0
      then ucast ((ucast x :: 32 word) OR push_bit bit_count (0xFFFF :: 32 word))
      else x)"

text \<open>\<^verbatim>\<open>swap16\<close>: both shifts are done on the promoted \<^verbatim>\<open>int\<close>; the return keeps 16 bits.\<close>

definition swap16 :: "16 word \<Rightarrow> 16 word" where
  "swap16 x = ucast (push_bit 8 (ucast x :: 32 word) OR drop_bit 8 (ucast x :: 32 word))"

text \<open>\<^verbatim>\<open>update_flags\<close> takes a register index and reads that register.\<close>

definition update_flags :: "nat \<Rightarrow> machine \<Rightarrow> machine" where
  "update_flags r m =
     (if reg m r = 0 then m\<lparr>reg := (reg m)(R_COND := FL_ZRO)\<rparr>
      else if drop_bit 15 (reg m r) \<noteq> 0 then m\<lparr>reg := (reg m)(R_COND := FL_NEG)\<rparr>
      else m\<lparr>reg := (reg m)(R_COND := FL_POS)\<rparr>)"

subsection \<open>Keyboard and memory (lines 178-219)\<close>

text \<open>\<^verbatim>\<open>check_key\<close> returns whether \<^verbatim>\<open>select\<close>, called with a zero timeout, returned
  a value other than 0. The model takes the next answer from \<open>select_ready\<close>.\<close>

definition check_key :: "machine \<Rightarrow> bool \<times> machine" where
  "check_key m =
     (case select_ready m of
        [] \<Rightarrow> (False, m)
      | r # rs \<Rightarrow> (r, m\<lparr>select_ready := rs\<rparr>))"

text \<open>\<^verbatim>\<open>getchar\<close> returns the next byte as an \<^verbatim>\<open>unsigned char\<close> converted to \<^verbatim>\<open>int\<close>.\<close>

definition getchar :: "machine \<Rightarrow> int \<times> machine" where
  "getchar m =
     (case stdin m of
        [] \<Rightarrow> (EOF, m)
      | b # bs \<Rightarrow> (uint b, m\<lparr>stdin := bs\<rparr>))"

text \<open>\<^verbatim>\<open>memory[address]\<close> is an element of the array only for an index below its
  declared size \<open>UINT16_MAX\<close>; any other index is an access out of bounds.\<close>

definition mem_write :: "16 word \<Rightarrow> 16 word \<Rightarrow> machine \<Rightarrow> machine result" where
  "mem_write address val m =
     (if unat address < UINT16_MAX
      then Inr (m\<lparr>memory := (memory m)(address := val)\<rparr>)
      else Inl (OutOfBounds, m))"

text \<open>The body of \<^verbatim>\<open>if (address == MR_KBSR)\<close> in \<^verbatim>\<open>mem_read\<close> (lines 207-216); both
  indices are constants inside the array. The \<^verbatim>\<open>int\<close> of \<^verbatim>\<open>getchar\<close> is converted to
  \<^verbatim>\<open>uint16_t\<close> by the assignment.\<close>

definition poll_keyboard :: "machine \<Rightarrow> machine" where
  "poll_keyboard m =
     (case check_key m of
        (True, m1) \<Rightarrow>
          (case getchar (m1\<lparr>memory := (memory m1)(MR_KBSR := push_bit 15 1)\<rparr>) of
             (c, m2) \<Rightarrow> m2\<lparr>memory := (memory m2)(MR_KBDR := word_of_int c)\<rparr>)
      | (False, m1) \<Rightarrow> m1\<lparr>memory := (memory m1)(MR_KBSR := 0)\<rparr>)"

definition mem_read :: "16 word \<Rightarrow> machine \<Rightarrow> (16 word \<times> machine) result" where
  "mem_read address m =
     (let m' = (if address = MR_KBSR then poll_keyboard m else m)
      in if unat address < UINT16_MAX
         then Inr (memory m' address, m')
         else Inl (OutOfBounds, m'))"

subsection \<open>Instructions (lines 292-556)\<close>

text \<open>
  One definition for each \<^verbatim>\<open>case\<close> of the \<^verbatim>\<open>switch\<close>, in the order of the source.
  The sums and \<^verbatim>\<open>~\<close> are computed on \<^verbatim>\<open>int\<close> and stored in a \<^verbatim>\<open>uint16_t\<close>, which is
  the arithmetic of \<open>16 word\<close>.
\<close>

definition op_add :: "16 word \<Rightarrow> machine \<Rightarrow> machine" where
  "op_add instr m =
     (let r0 = unat (drop_bit 9 instr AND 0x7);
          r1 = unat (drop_bit 6 instr AND 0x7);
          imm_flag = drop_bit 5 instr AND 0x1;
          m' = (if imm_flag \<noteq> 0
                then (let imm5 = sign_extend (instr AND 0x1F) 5
                      in m\<lparr>reg := (reg m)(r0 := reg m r1 + imm5)\<rparr>)
                else (let r2 = unat (instr AND 0x7)
                      in m\<lparr>reg := (reg m)(r0 := reg m r1 + reg m r2)\<rparr>))
      in update_flags r0 m')"

definition op_and :: "16 word \<Rightarrow> machine \<Rightarrow> machine" where
  "op_and instr m =
     (let r0 = unat (drop_bit 9 instr AND 0x7);
          r1 = unat (drop_bit 6 instr AND 0x7);
          imm_flag = drop_bit 5 instr AND 0x1;
          m' = (if imm_flag \<noteq> 0
                then (let imm5 = sign_extend (instr AND 0x1F) 5
                      in m\<lparr>reg := (reg m)(r0 := reg m r1 AND imm5)\<rparr>)
                else (let r2 = unat (instr AND 0x7)
                      in m\<lparr>reg := (reg m)(r0 := reg m r1 AND reg m r2)\<rparr>))
      in update_flags r0 m')"

definition op_not :: "16 word \<Rightarrow> machine \<Rightarrow> machine" where
  "op_not instr m =
     (let r0 = unat (drop_bit 9 instr AND 0x7);
          r1 = unat (drop_bit 6 instr AND 0x7)
      in update_flags r0 (m\<lparr>reg := (reg m)(r0 := NOT (reg m r1))\<rparr>))"

definition op_br :: "16 word \<Rightarrow> machine \<Rightarrow> machine" where
  "op_br instr m =
     (let pc_offset = sign_extend (instr AND 0x1FF) 9;
          cond = drop_bit 9 instr AND 0x7
      in if cond AND reg m R_COND \<noteq> 0
         then m\<lparr>reg := (reg m)(R_PC := reg m R_PC + pc_offset)\<rparr>
         else m)"

definition op_jmp :: "16 word \<Rightarrow> machine \<Rightarrow> machine" where
  "op_jmp instr m =
     (let r1 = unat (drop_bit 6 instr AND 0x7)
      in m\<lparr>reg := (reg m)(R_PC := reg m r1)\<rparr>)"

definition op_jsr :: "16 word \<Rightarrow> machine \<Rightarrow> machine" where
  "op_jsr instr m =
     (let r1 = unat (drop_bit 6 instr AND 0x7);
          pc_offset_long = sign_extend (instr AND 0x7FF) 11;
          flag = drop_bit 11 instr AND 1;
          m1 = m\<lparr>reg := (reg m)(R_R7 := reg m R_PC)\<rparr>
      in if flag \<noteq> 0
         then m1\<lparr>reg := (reg m1)(R_PC := reg m1 R_PC + pc_offset_long)\<rparr>
         else m1\<lparr>reg := (reg m1)(R_PC := reg m1 r1)\<rparr>)"

definition op_ld :: "16 word \<Rightarrow> machine \<Rightarrow> machine result" where
  "op_ld instr m =
     (let r0 = unat (drop_bit 9 instr AND 0x7);
          pc_offset = sign_extend (instr AND 0x1FF) 9
      in case mem_read (reg m R_PC + pc_offset) m of
           Inl e \<Rightarrow> Inl e
         | Inr (v, m1) \<Rightarrow> Inr (update_flags r0 (m1\<lparr>reg := (reg m1)(r0 := v)\<rparr>)))"

definition op_ldi :: "16 word \<Rightarrow> machine \<Rightarrow> machine result" where
  "op_ldi instr m =
     (let r0 = unat (drop_bit 9 instr AND 0x7);
          pc_offset = sign_extend (instr AND 0x1FF) 9
      in case mem_read (reg m R_PC + pc_offset) m of
           Inl e \<Rightarrow> Inl e
         | Inr (a, m1) \<Rightarrow>
             (case mem_read a m1 of
                Inl e \<Rightarrow> Inl e
              | Inr (v, m2) \<Rightarrow> Inr (update_flags r0 (m2\<lparr>reg := (reg m2)(r0 := v)\<rparr>))))"

definition op_ldr :: "16 word \<Rightarrow> machine \<Rightarrow> machine result" where
  "op_ldr instr m =
     (let r0 = unat (drop_bit 9 instr AND 0x7);
          r1 = unat (drop_bit 6 instr AND 0x7);
          pc_offset_short = sign_extend (instr AND 0x3F) 6
      in case mem_read (reg m r1 + pc_offset_short) m of
           Inl e \<Rightarrow> Inl e
         | Inr (v, m1) \<Rightarrow> Inr (update_flags r0 (m1\<lparr>reg := (reg m1)(r0 := v)\<rparr>)))"

definition op_lea :: "16 word \<Rightarrow> machine \<Rightarrow> machine" where
  "op_lea instr m =
     (let r0 = unat (drop_bit 9 instr AND 0x7);
          pc_offset = sign_extend (instr AND 0x1FF) 9
      in update_flags r0 (m\<lparr>reg := (reg m)(r0 := reg m R_PC + pc_offset)\<rparr>))"

definition op_st :: "16 word \<Rightarrow> machine \<Rightarrow> machine result" where
  "op_st instr m =
     (let r0 = unat (drop_bit 9 instr AND 0x7);
          pc_offset = sign_extend (instr AND 0x1FF) 9
      in mem_write (reg m R_PC + pc_offset) (reg m r0) m)"

definition op_sti :: "16 word \<Rightarrow> machine \<Rightarrow> machine result" where
  "op_sti instr m =
     (let r0 = unat (drop_bit 9 instr AND 0x7);
          pc_offset = sign_extend (instr AND 0x1FF) 9
      in case mem_read (reg m R_PC + pc_offset) m of
           Inl e \<Rightarrow> Inl e
         | Inr (a, m1) \<Rightarrow> mem_write a (reg m1 r0) m1)"

definition op_str :: "16 word \<Rightarrow> machine \<Rightarrow> machine result" where
  "op_str instr m =
     (let r0 = unat (drop_bit 9 instr AND 0x7);
          r1 = unat (drop_bit 6 instr AND 0x7);
          pc_offset_short = sign_extend (instr AND 0x3F) 6
      in mem_write (reg m r1 + pc_offset_short) (reg m r0) m)"

subsection \<open>Traps (lines 477-549)\<close>

text \<open>\<^verbatim>\<open>putc\<close> writes its argument converted to \<^verbatim>\<open>unsigned char\<close>; \<^verbatim>\<open>fflush\<close> changes
  nothing in a model whose output is the list of bytes written.\<close>

definition putc :: "8 word \<Rightarrow> machine \<Rightarrow> machine" where
  "putc c m = m\<lparr>stdout := stdout m @ [c]\<rparr>"

definition print :: "string \<Rightarrow> machine \<Rightarrow> machine" where
  "print s m = m\<lparr>stdout := stdout m @ map of_char s\<rparr>"

text \<open>
  The loops of \<^verbatim>\<open>TRAP_PUTS\<close> and \<^verbatim>\<open>TRAP_PUTSP\<close> walk a pointer \<^verbatim>\<open>c\<close> from
  \<^verbatim>\<open>memory + reg[R_R0]\<close>; \<open>i\<close> is the index \<^verbatim>\<open>c - memory\<close>. The pointer does not wrap:
  without a zero word before the end of the array the loop reads past it.
\<close>

function puts_loop :: "nat \<Rightarrow> machine \<Rightarrow> machine result" where
  "puts_loop i m =
     (if i < UINT16_MAX
      then (if memory m (of_nat i) \<noteq> 0
            then puts_loop (Suc i) (putc (ucast (memory m (of_nat i))) m)
            else Inr m)
      else Inl (OutOfBounds, m))"
  by pat_completeness auto
termination
  by (relation "measure (\<lambda>(i, m). UINT16_MAX - i)") auto

function putsp_loop :: "nat \<Rightarrow> machine \<Rightarrow> machine result" where
  "putsp_loop i m =
     (if i < UINT16_MAX
      then (if memory m (of_nat i) \<noteq> 0
            then (let char1 = (ucast (memory m (of_nat i) AND 0xFF) :: 8 word);
                      m1 = putc char1 m;
                      char2 = (ucast (drop_bit 8 (memory m (of_nat i))) :: 8 word);
                      m2 = (if char2 \<noteq> 0 then putc char2 m1 else m1)
                  in putsp_loop (Suc i) m2)
            else Inr m)
      else Inl (OutOfBounds, m))"
  by pat_completeness auto
termination
  by (relation "measure (\<lambda>(i, m). UINT16_MAX - i)") auto

declare puts_loop.simps [simp del] putsp_loop.simps [simp del]

text \<open>
  \<^verbatim>\<open>TRAP_IN\<close> keeps the character in a \<^verbatim>\<open>char\<close>, taken here as a signed 8-bit type
  (as on x86): the conversion to \<^verbatim>\<open>uint16_t\<close> extends its sign. The \<^verbatim>\<open>switch\<close> on
  \<^verbatim>\<open>trap_code\<close> has no \<^verbatim>\<open>default\<close>: any other code leaves the \<^verbatim>\<open>switch\<close> at once.
\<close>

definition op_trap :: "16 word \<Rightarrow> machine \<Rightarrow> machine result" where
  "op_trap instr m =
     (let trap_code = instr AND 0xFF;
          m1 = m\<lparr>reg := (reg m)(R_R7 := reg m R_PC)\<rparr>
      in if trap_code = TRAP_GETC then
           (case getchar m1 of
              (c, m2) \<Rightarrow> Inr (m2\<lparr>reg := (reg m2)(R_R0 := word_of_int c)\<rparr>))
         else if trap_code = TRAP_OUT then
           Inr (putc (ucast (reg m1 R_R0)) m1)
         else if trap_code = TRAP_PUTS then
           puts_loop (unat (reg m1 R_R0)) m1
         else if trap_code = TRAP_IN then
           (case getchar (print ''Enter a character: '' m1) of
              (i, m2) \<Rightarrow>
                (let c = (word_of_int i :: 8 word);
                     m3 = putc c m2
                 in Inr (m3\<lparr>reg := (reg m3)(R_R0 := scast c)\<rparr>)))
         else if trap_code = TRAP_PUTSP then
           putsp_loop (unat (reg m1 R_R0)) m1
         else if trap_code = TRAP_HALT then
           Inr ((print (''HALT'' @ [CHR 0x0A]) m1)\<lparr>running := False\<rparr>)
         else Inr m1)"

subsection \<open>The cycle (lines 286-557)\<close>

definition execute :: "16 word \<Rightarrow> machine \<Rightarrow> machine result" where
  "execute instr m =
     (let op = drop_bit 12 instr
      in if op = OP_ADD then Inr (op_add instr m)
         else if op = OP_AND then Inr (op_and instr m)
         else if op = OP_NOT then Inr (op_not instr m)
         else if op = OP_BR then Inr (op_br instr m)
         else if op = OP_JMP then Inr (op_jmp instr m)
         else if op = OP_JSR then Inr (op_jsr instr m)
         else if op = OP_LD then op_ld instr m
         else if op = OP_LDI then op_ldi instr m
         else if op = OP_LDR then op_ldr instr m
         else if op = OP_LEA then Inr (op_lea instr m)
         else if op = OP_ST then op_st instr m
         else if op = OP_STI then op_sti instr m
         else if op = OP_STR then op_str instr m
         else if op = OP_TRAP then op_trap instr m
         else Inl (IllegalOpcode, m))"

text \<open>\<^verbatim>\<open>mem_read(reg[R_PC]++)\<close>: the argument is the old PC, and the increment is
  complete before the body of \<^verbatim>\<open>mem_read\<close> runs.\<close>

definition fetch :: "machine \<Rightarrow> (16 word \<times> machine) result" where
  "fetch m =
     (let pc = reg m R_PC
      in mem_read pc (m\<lparr>reg := (reg m)(R_PC := pc + 1)\<rparr>))"

definition cycle :: "machine \<Rightarrow> machine result" where
  "cycle m =
     (case fetch m of
        Inl e \<Rightarrow> Inl e
      | Inr (instr, m1) \<Rightarrow> execute instr m1)"

text \<open>\<^verbatim>\<open>while (running)\<close>, for at most \<open>n\<close> cycles.\<close>

fun run :: "nat \<Rightarrow> machine \<Rightarrow> machine result" where
  "run 0 m = Inr m"
| "run (Suc n) m =
     (if running m
      then (case cycle m of Inl e \<Rightarrow> Inl e | Inr m' \<Rightarrow> run n m')
      else Inr m)"

subsection \<open>Image files (lines 143-176)\<close>

text \<open>
  An image file is its list of bytes. \<^verbatim>\<open>fread\<close> copies the bytes it finds, up to the
  number asked for, into the \<^verbatim>\<open>uint16_t\<close> objects and returns the number of whole
  two-byte items; on the little-endian host the code is written for (line 158) the
  first byte of an item is the low byte of the object.
\<close>

definition le16 :: "8 word \<Rightarrow> 8 word \<Rightarrow> 16 word" where
  "le16 b0 b1 = ucast b0 OR push_bit 8 (ucast b1)"

fun items16 :: "8 word list \<Rightarrow> 16 word list" where
  "items16 (b0 # b1 # bs) = le16 b0 b1 # items16 bs"
| "items16 _ = []"

text \<open>The stores of \<^verbatim>\<open>fread(p, ...)\<close>: \<open>i\<close> is the index \<^verbatim>\<open>p - memory\<close> of the next element.\<close>

fun fread_store :: "nat \<Rightarrow> 16 word list \<Rightarrow> (16 word \<Rightarrow> 16 word) \<Rightarrow> (16 word \<Rightarrow> 16 word)" where
  "fread_store i [] mem = mem"
| "fread_store i (w # ws) mem = fread_store (Suc i) ws (mem(of_nat i := w))"

text \<open>
  When the file ends in the middle of an item and \<^verbatim>\<open>fread\<close> still has room, the byte
  that is left goes into the first byte of the next element (C calls the value of
  that element indeterminate; this is what the C library stores). \<^verbatim>\<open>fread\<close> does not
  count that element.
\<close>

definition fread_partial :: "nat \<Rightarrow> 8 word \<Rightarrow> (16 word \<Rightarrow> 16 word) \<Rightarrow> (16 word \<Rightarrow> 16 word)" where
  "fread_partial i b mem = mem(of_nat i := (mem (of_nat i) AND 0xFF00) OR ucast b)"

text \<open>\<^verbatim>\<open>while (read-- > 0) { *p = swap16(*p); ++p; }\<close>\<close>

fun swap_loop :: "nat \<Rightarrow> nat \<Rightarrow> (16 word \<Rightarrow> 16 word) \<Rightarrow> (16 word \<Rightarrow> 16 word)" where
  "swap_loop 0 i mem = mem"
| "swap_loop (Suc read) i mem =
     swap_loop read (Suc i) (mem(of_nat i := swap16 (mem (of_nat i))))"

text \<open>
  \<^verbatim>\<open>read_image_file\<close> checks no result of \<^verbatim>\<open>fread\<close> and always returns.
  \<^verbatim>\<open>max_read = UINT16_MAX - origin\<close> is at most the number of elements from
  \<^verbatim>\<open>memory + origin\<close> to the end of the array, so \<^verbatim>\<open>fread\<close> and the loop stay inside
  the array. A file shorter than two bytes never assigns the whole of \<^verbatim>\<open>origin\<close>;
  whatever \<^verbatim>\<open>origin\<close> then holds, the second \<^verbatim>\<open>fread\<close> finds the file at its end,
  stores nothing and returns 0, so the memory stays as it was.
\<close>

definition read_image_file :: "8 word list \<Rightarrow> machine \<Rightarrow> machine" where
  "read_image_file file m =
     (case file of
        b0 # b1 # rest \<Rightarrow>
          (let origin = swap16 (le16 b0 b1);
               max_read = (of_nat UINT16_MAX :: 16 word) - origin;
               items = take (unat max_read) (items16 rest);
               read = length items;
               mem = fread_store (unat origin) items (memory m);
               mem' = (if odd (length rest) \<and> read < unat max_read
                       then fread_partial (unat origin + read) (last rest) mem
                       else mem)
           in m\<lparr>memory := swap_loop read (unat origin) mem'\<rparr>)
      | _ \<Rightarrow> m)"

text \<open>A file that \<^verbatim>\<open>fopen\<close> cannot open is \<open>None\<close>. The result is the returned \<^verbatim>\<open>int\<close>
  as a truth value.\<close>

definition read_image :: "8 word list option \<Rightarrow> machine \<Rightarrow> bool \<times> machine" where
  "read_image img m =
     (case img of
        None \<Rightarrow> (False, m)
      | Some file \<Rightarrow> (True, read_image_file file m))"

text \<open>
  The image file of an origin and a list of data words, in the format the
  specification gives: the origin first, every word as two bytes, the high byte first.
\<close>

definition be_bytes :: "16 word \<Rightarrow> 8 word list" where
  "be_bytes w = [ucast (drop_bit 8 w), ucast w]"

definition image_file :: "16 word \<Rightarrow> 16 word list \<Rightarrow> 8 word list" where
  "image_file origin ws = be_bytes origin @ concat (map be_bytes ws)"

subsection \<open>Start of \<^verbatim>\<open>main\<close> (lines 258-285)\<close>

text \<open>
  Objects with static storage start as zero. The arguments after the program name
  are pairs of a path and the file found there. The terminal settings and the signal
  handler (lines 224-253, 275-276, 559) change nothing that the model holds.
\<close>

definition power_on :: "8 word list \<Rightarrow> bool list \<Rightarrow> machine" where
  "power_on inp sel =
     \<lparr>memory = (\<lambda>_. 0), reg = (\<lambda>_. 0), running = False,
      stdin = inp, select_ready = sel, stdout = []\<rparr>"

fun load_images :: "(string \<times> 8 word list option) list \<Rightarrow> machine \<Rightarrow> machine result" where
  "load_images [] m = Inr m"
| "load_images ((path, img) # rest) m =
     (case read_image img m of
        (ok, m1) \<Rightarrow>
          if ok then load_images rest m1
          else Inl (Exited 1, print (''failed to load image: '' @ path @ [CHR 0x0A]) m1))"

definition enter_loop :: "machine \<Rightarrow> machine" where
  "enter_loop m = m\<lparr>reg := (reg m)(R_PC := PC_START), running := True\<rparr>"

definition startup :: "(string \<times> 8 word list option) list \<Rightarrow> 8 word list \<Rightarrow> bool list
    \<Rightarrow> machine result" where
  "startup args inp sel =
     (if args = []
      then Inl (Exited 2, print (''lc3 [image-file1] ...'' @ [CHR 0x0A]) (power_on inp sel))
      else (case load_images args (power_on inp sel) of
              Inl e \<Rightarrow> Inl e
            | Inr m \<Rightarrow> Inr (enter_loop m)))"

section \<open>Properties\<close>

lemmas reg_defs = R_R0_def R_R1_def R_R2_def R_R3_def R_R4_def R_R5_def R_R6_def R_R7_def
  R_PC_def R_COND_def R_COUNT_def

lemmas op_defs = OP_BR_def OP_ADD_def OP_LD_def OP_ST_def OP_JSR_def OP_AND_def
  OP_LDR_def OP_STR_def OP_RTI_def OP_NOT_def OP_LDI_def OP_STI_def OP_JMP_def
  OP_RES_def OP_LEA_def OP_TRAP_def

lemmas fl_defs = FL_POS_def FL_ZRO_def FL_NEG_def

lemmas mr_defs = MR_KBSR_def MR_KBDR_def

lemmas trap_defs = TRAP_GETC_def TRAP_OUT_def TRAP_PUTS_def TRAP_IN_def
  TRAP_PUTSP_def TRAP_HALT_def

subsection \<open>Bits of a word\<close>

lemma bit16_hi: "bit (w :: 16 word) (15 + n) \<longleftrightarrow> n = 0 \<and> bit w 15"
  by (cases n) (auto dest: bit_imp_le_length)

lemma drop_bit_15_iff: "drop_bit 15 (w :: 16 word) \<noteq> 0 \<longleftrightarrow> bit w 15"
proof -
  have "drop_bit 15 w = of_bool (bit w 15)"
    by (rule bit_word_eqI) (auto simp add: bit_simps bit16_hi)
  then show ?thesis by simp
qed

lemma test_bit_iff: "drop_bit k (x :: 16 word) AND 1 \<noteq> 0 \<longleftrightarrow> bit x k"
proof -
  have "drop_bit k x AND 1 = of_bool (bit x k)"
    by (rule bit_word_eqI) (auto simp add: bit_simps)
  then show ?thesis by simp
qed

lemma ffff_mask: "(0xFFFF :: 32 word) = mask 16"
  by (simp add: mask_eq_exp_minus_1)

lemma int_or_truncated:
  "n \<le> 16 \<Longrightarrow>
     (ucast ((ucast (x :: 16 word) :: 32 word) OR push_bit n (0xFFFF :: 32 word)) :: 16 word)
       = x OR NOT (mask n)"
  apply (rule bit_word_eqI)
  apply (simp only: ffff_mask)
  apply (auto simp add: bit_simps)
  done

lemma small_take_bit: "unat (x :: 16 word) < 2 ^ n \<Longrightarrow> take_bit n x = x"
  by (simp add: word_unat_eq_iff unsigned_take_bit_eq take_bit_nat_eq_self_iff)

lemma or_not_mask_small:
  assumes "unat (x :: 16 word) < 2 ^ n"
  shows "x OR NOT (mask n) = x - 2 ^ n"
proof -
  have t: "take_bit n x = x" using assms by (rule small_take_bit)
  have "x AND NOT (mask n) = take_bit n x AND NOT (mask n)" by (simp only: t)
  also have "\<dots> = 0" by (rule bit_word_eqI) (auto simp add: bit_simps)
  finally have "x + NOT (mask n) = x OR NOT (mask n)" by (rule disjunctive_add_eq_or)
  then show ?thesis by (simp add: minus_exp_eq_not_mask [symmetric])
qed

lemma sign_extend_eq:
  "1 \<le> n \<Longrightarrow> n \<le> 16 \<Longrightarrow>
     sign_extend x n = (if bit x (n - 1) then x OR NOT (mask n) else x)"
  by (simp add: sign_extend_def test_bit_iff int_or_truncated)

subsection \<open>Sign extension\<close>

text \<open>
  C7, as the specification states it: for every \<open>n\<close> from 1 to 16 and every 16-bit \<open>x\<close>
  whose bit \<open>n - 1\<close> is 1, \<open>sign_extend x n\<close> is \<open>x - 2 ^ n\<close> in 16-bit arithmetic.
  This fails when \<open>x\<close> has a bit set at position \<open>n\<close> or above: for \<open>x = 0x30\<close> and
  \<open>n = 5\<close> bit 4 is set, the result is \<open>0xFFF0\<close>, and \<open>x - 2 ^ 5\<close> is \<open>0x10\<close>.
\<close>

theorem sign_extend_high_bits_counterexample:
  "(1::nat) \<le> 5 \<and> (5::nat) \<le> 16 \<and> bit (0x30 :: 16 word) (5 - 1)
     \<and> sign_extend 0x30 5 = 0xFFF0 \<and> sign_extend 0x30 5 \<noteq> 0x30 - 2 ^ 5"
  by (simp add: sign_extend_def)

text \<open>
  C7, amended: for \<open>n\<close> from 1 to 16, \<open>sign_extend x n\<close> is \<open>x\<close> when bit \<open>n - 1\<close> of
  \<open>x\<close> is 0; when that bit is 1 it is \<open>x\<close> with the bits \<open>n\<close> to 15 set, which is
  \<open>x - 2 ^ n\<close> in 16-bit arithmetic for every \<open>x\<close> below \<open>2 ^ n\<close> (the only values the
  callers pass, since they mask the field first).
\<close>

theorem sign_extend_value:
  "1 \<le> n \<Longrightarrow> n \<le> 16 \<Longrightarrow>
     (\<not> bit x (n - 1) \<longrightarrow> sign_extend x n = x) \<and>
     (bit x (n - 1) \<longrightarrow> sign_extend x n = x OR NOT (mask n)) \<and>
     (bit x (n - 1) \<longrightarrow> unat x < 2 ^ n \<longrightarrow> sign_extend x n = x - 2 ^ n)"
  by (simp add: sign_extend_eq or_not_mask_small)

theorem sign_extend_value_witness:
  "(1::nat) \<le> 5 \<and> (5::nat) \<le> 16 \<and> bit (0x1F :: 16 word) (5 - 1) \<and> unat (0x1F :: 16 word) < 2 ^ 5
     \<and> sign_extend 0x1F 5 = 0x1F - 2 ^ 5
     \<and> \<not> bit (0x0F :: 16 word) (5 - 1) \<and> sign_extend 0x0F 5 = 0x0F"
  using sign_extend_value [of 5 "0x1F", THEN conjunct2, THEN conjunct2]
    sign_extend_value [of 5 "0x0F", THEN conjunct1]
  by simp

subsection \<open>Condition flags\<close>

lemma flags_distinct: "distinct [FL_POS, FL_ZRO, FL_NEG]"
  by (simp add: fl_defs)

text \<open>
  C8: for a register \<open>r\<close> holding the value \<open>v\<close>, \<open>update_flags r\<close> leaves in COND
  \<open>FL_ZRO\<close> if \<open>v = 0\<close>, \<open>FL_NEG\<close> if bit 15 of \<open>v\<close> is set and \<open>FL_POS\<close> otherwise:
  one of three values that are pairwise different.
\<close>

theorem update_flags_cond:
  "r < R_COUNT \<Longrightarrow> reg m r = v \<Longrightarrow>
     reg (update_flags r m) R_COND
       = (if v = 0 then FL_ZRO else if bit v 15 then FL_NEG else FL_POS) \<and>
     reg (update_flags r m) R_COND \<in> {FL_POS, FL_ZRO, FL_NEG} \<and>
     distinct [FL_POS, FL_ZRO, FL_NEG]"
  by (auto simp add: update_flags_def drop_bit_15_iff fl_defs)

theorem update_flags_cond_witness:
  "R_R0 < R_COUNT
     \<and> reg ((power_on [] [])\<lparr>reg := (\<lambda>_. 0)(R_R0 := 0x8000)\<rparr>) R_R0 = 0x8000
     \<and> reg (update_flags R_R0 ((power_on [] [])\<lparr>reg := (\<lambda>_. 0)(R_R0 := 0x8000)\<rparr>)) R_COND
         = FL_NEG"
  using update_flags_cond [of R_R0 "(power_on [] [])\<lparr>reg := (\<lambda>_. 0)(R_R0 := 0x8000)\<rparr>" "0x8000"]
  by (simp add: reg_defs power_on_def)

subsection \<open>Memory\<close>

lemma mem_write_in_array:
  "unat a < UINT16_MAX \<Longrightarrow> mem_write a v m = Inr (m\<lparr>memory := (memory m)(a := v)\<rparr>)"
  by (simp add: mem_write_def)

lemma mem_read_in_array:
  "unat a < UINT16_MAX \<Longrightarrow> a \<noteq> MR_KBSR \<Longrightarrow> mem_read a m = Inr (memory m a, m)"
  by (simp add: mem_read_def)

lemma mem_read_after_write:
  "unat a < UINT16_MAX \<Longrightarrow> a \<noteq> MR_KBSR \<Longrightarrow> mem_write a v m = Inr m' \<Longrightarrow>
     mem_read a m' = Inr (v, m')"
  by (auto simp add: mem_write_def mem_read_def)

text \<open>
  C1: the specification takes the memory to have 65536 words, one for every 16-bit
  address. The array of line 100 has \<open>UINT16_MAX = 65535\<close> elements, so the index
  \<open>0xFFFF\<close> is outside it and \<open>mem_write\<close> at that address is an access out of bounds.
\<close>

theorem mem_write_last_address_out_of_bounds:
  "mem_write 0xFFFF v m = Inl (OutOfBounds, m)"
  by (simp add: mem_write_def UINT16_MAX_def)

lemma minus_one_word16: "(- 1 :: 16 word) = 0xFFFF"
  by simp

lemma byte_as_word16: "(word_of_int (uint (b :: 8 word)) :: 16 word) = ucast b"
  by simp

lemma poll_keyboard_memory:
  "memory (poll_keyboard m) =
     (case select_ready m of
        True # _ \<Rightarrow> (memory m)(MR_KBSR := 0x8000,
                       MR_KBDR := (case stdin m of b # _ \<Rightarrow> ucast b | [] \<Rightarrow> 0xFFFF))
      | _ \<Rightarrow> (memory m)(MR_KBSR := 0))"
  by (auto simp add: poll_keyboard_def check_key_def getchar_def EOF_def minus_one_word16
      byte_as_word16 split: list.splits bool.splits)

lemma poll_keyboard_reg: "reg (poll_keyboard m) = reg m"
  by (simp add: poll_keyboard_def check_key_def getchar_def split: list.splits bool.splits)

lemma poll_keyboard_running: "running (poll_keyboard m) = running m"
  by (simp add: poll_keyboard_def check_key_def getchar_def split: list.splits bool.splits)

lemma mem_read_reg: "mem_read a m = Inr (v, m') \<Longrightarrow> reg m' = reg m"
  by (auto simp add: mem_read_def Let_def poll_keyboard_reg split: if_splits)

lemma mem_write_reg: "mem_write a v m = Inr m' \<Longrightarrow> reg m' = reg m"
  by (auto simp add: mem_write_def split: if_splits)

text \<open>The keyboard status address: the poll comes first, then the read of the cell.\<close>

lemma mem_read_kbsr_ready:
  "select_ready m = True # rs \<Longrightarrow> stdin m = b # bs \<Longrightarrow>
     mem_read MR_KBSR m =
       Inr (0x8000, m\<lparr>memory := (memory m)(MR_KBSR := 0x8000, MR_KBDR := ucast b),
                       stdin := bs, select_ready := rs\<rparr>)"
  by (simp add: mem_read_def poll_keyboard_def check_key_def getchar_def byte_as_word16
      UINT16_MAX_def mr_defs)

lemma mem_read_kbsr_not_ready:
  "select_ready m = False # rs \<Longrightarrow>
     mem_read MR_KBSR m =
       Inr (0, m\<lparr>memory := (memory m)(MR_KBSR := 0), select_ready := rs\<rparr>)"
  by (simp add: mem_read_def poll_keyboard_def check_key_def UINT16_MAX_def mr_defs)

lemma mem_read_last_address_out_of_bounds:
  "mem_read 0xFFFF m = Inl (OutOfBounds, m)"
  by (simp add: mem_read_def UINT16_MAX_def mr_defs)

lemma mem_read_kbsr_end_of_input:
  "select_ready m = True # rs \<Longrightarrow> stdin m = [] \<Longrightarrow>
     mem_read MR_KBSR m =
       Inr (0x8000, m\<lparr>memory := (memory m)(MR_KBSR := 0x8000, MR_KBDR := 0xFFFF),
                       select_ready := rs\<rparr>)"
  by (simp add: mem_read_def poll_keyboard_def check_key_def getchar_def EOF_def
      minus_one_word16 UINT16_MAX_def mr_defs)

lemma mem_read_kbsr_no_poll_left:
  "select_ready m = [] \<Longrightarrow>
     mem_read MR_KBSR m = Inr (0, m\<lparr>memory := (memory m)(MR_KBSR := 0)\<rparr>)"
  by (simp add: mem_read_def poll_keyboard_def check_key_def UINT16_MAX_def mr_defs)

text \<open>
  C6, as the specification states it: on a read of the keyboard status address the
  status cell becomes \<open>0x8000\<close> and the data cell the next input byte, zero-extended,
  if a byte is available, and the status cell becomes 0 otherwise. The code asks
  \<^verbatim>\<open>select\<close> whether the input is readable, and the input is readable at its end too:
  then no byte is available, \<^verbatim>\<open>getchar\<close> returns \<^verbatim>\<open>EOF\<close>, the status cell becomes
  \<open>0x8000\<close> and not 0, and the data cell becomes \<open>0xFFFF\<close>, which is no zero-extended byte.
\<close>

theorem mem_read_kbsr_end_of_input_counterexample:
  "select_ready (power_on [] [True]) = [True] \<and> stdin (power_on [] [True]) = []
   \<and> mem_read MR_KBSR (power_on [] [True])
       = Inr (0x8000,
              \<lparr>memory = (\<lambda>_. 0)(0xFE00 := 0x8000, 0xFE02 := 0xFFFF), reg = (\<lambda>_. 0),
               running = False, stdin = [], select_ready = [], stdout = []\<rparr>)
   \<and> memory \<lparr>memory = (\<lambda>_. 0)(0xFE00 := 0x8000, 0xFE02 := 0xFFFF), reg = (\<lambda>_. 0),
              running = False, stdin = [], select_ready = [], stdout = []\<rparr> 0xFE00
        \<noteq> (0 :: 16 word)
   \<and> \<not> unat (memory \<lparr>memory = (\<lambda>_. 0)(0xFE00 := 0x8000, 0xFE02 := 0xFFFF),
                        reg = (\<lambda>_. 0), running = False, stdin = [],
                        select_ready = [], stdout = []\<rparr> 0xFE02) \<le> 0xFF"
  by (simp add: mem_read_def poll_keyboard_def check_key_def getchar_def EOF_def
      minus_one_word16 UINT16_MAX_def mr_defs power_on_def)

text \<open>
  C6, amended: a read of the keyboard status address \<open>0xFE00\<close> first asks \<^verbatim>\<open>select\<close>,
  without waiting, whether the input is readable. If it is, the status cell becomes
  \<open>0x8000\<close> and the data cell at \<open>0xFE02\<close> the value of \<^verbatim>\<open>getchar\<close> in 16 bits: the
  next input byte, zero-extended, or \<open>0xFFFF\<close> at the end of the input. If it is not,
  the status cell becomes 0. The read then returns the status cell. A read of any
  other address up to \<open>0xFFFE\<close> returns the stored word and changes nothing.
\<close>

theorem mem_read_behaviour:
  "(a = MR_KBSR \<and> select_ready m = True # rs \<and> stdin m = b # bs \<longrightarrow>
      mem_read a m =
        Inr (0x8000, m\<lparr>memory := (memory m)(MR_KBSR := 0x8000, MR_KBDR := ucast b),
                        stdin := bs, select_ready := rs\<rparr>)) \<and>
   (a = MR_KBSR \<and> select_ready m = True # rs \<and> stdin m = [] \<longrightarrow>
      mem_read a m =
        Inr (0x8000, m\<lparr>memory := (memory m)(MR_KBSR := 0x8000, MR_KBDR := 0xFFFF),
                        select_ready := rs\<rparr>)) \<and>
   (a = MR_KBSR \<and> select_ready m = False # rs \<longrightarrow>
      mem_read a m = Inr (0, m\<lparr>memory := (memory m)(MR_KBSR := 0), select_ready := rs\<rparr>)) \<and>
   (a = MR_KBSR \<and> select_ready m = [] \<longrightarrow>
      mem_read a m = Inr (0, m\<lparr>memory := (memory m)(MR_KBSR := 0)\<rparr>)) \<and>
   (a \<noteq> MR_KBSR \<and> unat a < UINT16_MAX \<longrightarrow> mem_read a m = Inr (memory m a, m))"
  using mem_read_kbsr_ready [of m rs b bs] mem_read_kbsr_end_of_input [of m rs]
    mem_read_kbsr_not_ready [of m rs] mem_read_kbsr_no_poll_left [of m]
    mem_read_in_array [of a m]
  by blast

theorem mem_read_behaviour_witness:
  "select_ready (power_on [0x41] [True]) = [True] \<and> stdin (power_on [0x41] [True]) = [0x41]
   \<and> mem_read MR_KBSR (power_on [0x41] [True])
       = Inr (0x8000, (power_on [] [])\<lparr>memory := (\<lambda>_. 0)(0xFE00 := 0x8000, 0xFE02 := 0x41)\<rparr>)
   \<and> select_ready (power_on [0x41] [False]) = [False]
   \<and> mem_read MR_KBSR (power_on [0x41] [False])
       = Inr (0, (power_on [0x41] [])\<lparr>memory := (\<lambda>_. 0)(0xFE00 := 0)\<rparr>)
   \<and> (0x3000 :: 16 word) \<noteq> MR_KBSR \<and> unat (0x3000 :: 16 word) < UINT16_MAX
   \<and> mem_read 0x3000 ((power_on [] [])\<lparr>memory := (\<lambda>_. 0)(0x3000 := 0x1234)\<rparr>)
       = Inr (0x1234, (power_on [] [])\<lparr>memory := (\<lambda>_. 0)(0x3000 := 0x1234)\<rparr>)"
  using mem_read_behaviour [of MR_KBSR "power_on [0x41] [True]" "[]" "0x41" "[]"]
    mem_read_behaviour [of MR_KBSR "power_on [0x41] [False]" "[]"]
    mem_read_behaviour [of "0x3000" "(power_on [] [])\<lparr>memory := (\<lambda>_. 0)(0x3000 := 0x1234)\<rparr>"]
  by (simp add: power_on_def mr_defs UINT16_MAX_def)

subsection \<open>Fetch\<close>

lemma fetch_plain:
  "reg m R_PC = pc \<Longrightarrow> unat pc < UINT16_MAX \<Longrightarrow> pc \<noteq> MR_KBSR \<Longrightarrow>
     fetch m = Inr (memory m pc, m\<lparr>reg := (reg m)(R_PC := pc + 1)\<rparr>)"
  by (simp add: fetch_def mem_read_def)

lemma fetch_reg: "fetch m = Inr (instr, m1) \<Longrightarrow> reg m1 = (reg m)(R_PC := reg m R_PC + 1)"
  by (auto simp add: fetch_def Let_def dest: mem_read_reg)

lemma fetch_not_kbsr:
  "fetch m = Inr (instr, m1) \<Longrightarrow> reg m R_PC \<noteq> MR_KBSR \<Longrightarrow>
     m1 = m\<lparr>reg := (reg m)(R_PC := reg m R_PC + 1)\<rparr>"
  by (auto simp add: fetch_def mem_read_def Let_def split: if_splits)

lemma execute_jsr5:
  "execute 0x4805 m = Inr (m\<lparr>reg := (reg m)(R_R7 := reg m R_PC, R_PC := reg m R_PC + 5)\<rparr>)"
  by (simp add: execute_def op_defs op_jsr_def sign_extend_def reg_defs)

lemma reg_field_less: "unat (w AND 0x7 :: 16 word) < 8"
proof -
  have "unat (w AND 7) \<le> unat (7 :: 16 word)"
    by (rule word_and_le1 [THEN word_le_nat_alt [THEN iffD1]])
  then show ?thesis by simp
qed

lemma and_mask_less: "unat (w AND (2 ^ n - 1) :: 16 word) < 2 ^ n"
  by (simp flip: mask_eq_exp_minus_1 take_bit_eq_mask add: unsigned_take_bit_eq)

lemma bit_and_low: "k < n \<Longrightarrow> bit (w AND (2 ^ n - 1) :: 16 word) k = bit w k"
  by (auto simp flip: mask_eq_exp_minus_1 simp add: bit_simps dest: bit_imp_le_length)

lemma sign_extend_field:
  "1 \<le> n \<Longrightarrow> n \<le> 16 \<Longrightarrow>
   sign_extend (w AND (2 ^ n - 1)) n = (w AND (2 ^ n - 1)) - (if bit w (n - 1) then 2 ^ n else 0)"
  by (simp add: sign_extend_eq bit_and_low or_not_mask_small and_mask_less)

lemma pc_offset9:
  "sign_extend (instr AND 0x1FF) 9 = (instr AND 0x1FF) - (if bit instr 8 then 0x200 else 0)"
  using sign_extend_field [of 9 instr] by simp

lemma pc_offset11:
  "sign_extend (instr AND 0x7FF) 11 = (instr AND 0x7FF) - (if bit instr 10 then 0x800 else 0)"
  using sign_extend_field [of 11 instr] by simp


lemma jsr_at_0x3000:
  "reg m R_PC = 0x3000 \<Longrightarrow> memory m 0x3000 = 0x4805 \<Longrightarrow>
     fetch m = Inr (0x4805, m\<lparr>reg := (reg m)(R_PC := 0x3001)\<rparr>) \<and>
     cycle m = Inr (m\<lparr>reg := (reg m)(R_R7 := 0x3001, R_PC := 0x3001 + 5)\<rparr>)"
  by (simp add: cycle_def fetch_plain [of m "0x3000"] UINT16_MAX_def mr_defs execute_jsr5)

lemma fetch_word:
  "fetch m = Inr (instr, m1) \<Longrightarrow> reg m R_PC \<noteq> MR_KBSR \<Longrightarrow> instr = memory m (reg m R_PC)"
  by (auto simp add: fetch_def mem_read_def Let_def split: if_splits)

lemma cycle_br:
  assumes "fetch m = Inr (instr, m1)" and "drop_bit 12 instr = OP_BR"
  shows "cycle m =
      Inr (if (drop_bit 9 instr AND 0x7) AND reg m R_COND \<noteq> 0
           then m1\<lparr>reg := (reg m1)(R_PC := reg m R_PC + 1
                     + ((instr AND 0x1FF) - (if bit instr 8 then 0x200 else 0)))\<rparr>
           else m1)"
  using assms fetch_reg [OF assms(1)]
  by (simp add: cycle_def execute_def op_defs op_br_def Let_def pc_offset9 reg_defs)


lemma cycle_jsr:
  assumes "fetch m = Inr (instr, m1)" and "drop_bit 12 instr = OP_JSR" and "bit instr 11"
  shows "cycle m =
      Inr (m1\<lparr>reg := (reg m1)(R_R7 := reg m R_PC + 1,
                R_PC := reg m R_PC + 1
                  + ((instr AND 0x7FF) - (if bit instr 10 then 0x800 else 0)))\<rparr>)"
  using assms fetch_reg [OF assms(1)]
  by (simp add: cycle_def execute_def op_defs op_jsr_def Let_def pc_offset11 reg_defs test_bit_iff)

lemma cycle_jsrr:
  assumes "fetch m = Inr (instr, m1)" and "drop_bit 12 instr = OP_JSR" and "\<not> bit instr 11"
  shows "cycle m =
      Inr (m1\<lparr>reg := (reg m1)(R_R7 := reg m R_PC + 1,
                R_PC := (if unat (drop_bit 6 instr AND 0x7) = R_R7 then reg m R_PC + 1
                         else reg m (unat (drop_bit 6 instr AND 0x7))))\<rparr>)"
  using assms fetch_reg [OF assms(1)] reg_field_less [of "drop_bit 6 instr"]
  by (simp add: cycle_def execute_def op_defs op_jsr_def Let_def reg_defs test_bit_iff)

lemma cycle_lea:
  assumes "fetch m = Inr (instr, m1)" and "drop_bit 12 instr = OP_LEA"
  shows "cycle m =
      Inr (update_flags (unat (drop_bit 9 instr AND 0x7))
             (m1\<lparr>reg := (reg m1)(unat (drop_bit 9 instr AND 0x7) := reg m R_PC + 1
                       + ((instr AND 0x1FF) - (if bit instr 8 then 0x200 else 0)))\<rparr>))"
  using assms fetch_reg [OF assms(1)]
  by (simp add: cycle_def execute_def op_defs op_lea_def Let_def pc_offset9 reg_defs)

lemma cycle_ld:
  assumes "fetch m = Inr (instr, m1)" and "drop_bit 12 instr = OP_LD"
  shows "cycle m =
      (case mem_read (reg m R_PC + 1
                        + ((instr AND 0x1FF) - (if bit instr 8 then 0x200 else 0))) m1 of
         Inl e \<Rightarrow> Inl e
       | Inr (v, m2) \<Rightarrow>
           Inr (update_flags (unat (drop_bit 9 instr AND 0x7))
                  (m2\<lparr>reg := (reg m2)(unat (drop_bit 9 instr AND 0x7) := v)\<rparr>)))"
  using assms fetch_reg [OF assms(1)]
  by (simp add: cycle_def execute_def op_defs op_ld_def Let_def pc_offset9 reg_defs)

lemma cycle_ldi:
  assumes "fetch m = Inr (instr, m1)" and "drop_bit 12 instr = OP_LDI"
  shows "cycle m =
      (case mem_read (reg m R_PC + 1
                        + ((instr AND 0x1FF) - (if bit instr 8 then 0x200 else 0))) m1 of
         Inl e \<Rightarrow> Inl e
       | Inr (a, m2) \<Rightarrow>
           (case mem_read a m2 of
              Inl e \<Rightarrow> Inl e
            | Inr (v, m3) \<Rightarrow>
                Inr (update_flags (unat (drop_bit 9 instr AND 0x7))
                       (m3\<lparr>reg := (reg m3)(unat (drop_bit 9 instr AND 0x7) := v)\<rparr>))))"
  using assms fetch_reg [OF assms(1)]
  by (simp add: cycle_def execute_def op_defs op_ldi_def Let_def pc_offset9 reg_defs)

lemma cycle_st:
  assumes "fetch m = Inr (instr, m1)" and "drop_bit 12 instr = OP_ST"
  shows "cycle m =
      mem_write (reg m R_PC + 1 + ((instr AND 0x1FF) - (if bit instr 8 then 0x200 else 0)))
        (reg m (unat (drop_bit 9 instr AND 0x7))) m1"
  using assms fetch_reg [OF assms(1)] reg_field_less [of "drop_bit 9 instr"]
  by (simp add: cycle_def execute_def op_defs op_st_def Let_def pc_offset9 reg_defs)

lemma cycle_sti:
  assumes "fetch m = Inr (instr, m1)" and "drop_bit 12 instr = OP_STI"
  shows "cycle m =
      (case mem_read (reg m R_PC + 1
                        + ((instr AND 0x1FF) - (if bit instr 8 then 0x200 else 0))) m1 of
         Inl e \<Rightarrow> Inl e
       | Inr (a, m2) \<Rightarrow> mem_write a (reg m (unat (drop_bit 9 instr AND 0x7))) m2)"
proof -
  have r: "reg m2 (unat (drop_bit 9 instr AND 0x7)) = reg m (unat (drop_bit 9 instr AND 0x7))"
    if "mem_read a m1 = Inr (v, m2)" for a v m2
    using mem_read_reg [OF that] fetch_reg [OF assms(1)] reg_field_less [of "drop_bit 9 instr"]
    by (simp add: reg_defs)
  show ?thesis
    using assms fetch_reg [OF assms(1)]
    by (auto simp add: cycle_def execute_def op_defs op_sti_def Let_def pc_offset9 reg_defs r
        split: sum.splits)
qed


text \<open>
  C9: the increment of the PC is part of the fetch, so the instruction body sees the
  incremented PC, and every operation that works relative to the PC works relative to
  the incremented one. With \<open>pc\<close> the PC before the cycle plus one, \<open>off9\<close> and \<open>off11\<close>
  the low 9 and 11 bits of the instruction word as two's complement numbers:
  \<open>BR\<close> (when taken) and \<open>JSR\<close> leave \<open>pc + off9\<close> and \<open>pc + off11\<close> in the PC, \<open>JSR\<close> and
  \<open>JSRR\<close> leave \<open>pc\<close> in R7, \<open>LEA\<close> loads \<open>pc + off9\<close>, and \<open>LD\<close>, \<open>LDI\<close>, \<open>ST\<close> and \<open>STI\<close>
  access memory at \<open>pc + off9\<close>. In particular, with the PC at \<open>0x3000\<close> and \<open>JSR\<close> with
  offset 5 there (the word \<open>0x4805\<close>: opcode \<open>0100\<close>, bit 11 set, offset 5), the fetch
  leaves the PC at \<open>0x3001\<close> and the cycle ends with \<open>R7 = 0x3001\<close> and \<open>PC = 0x3001 + 5\<close>.
\<close>

theorem pc_relative_uses_incremented_pc:
  "(reg m R_PC = 0x3000 \<and> memory m 0x3000 = 0x4805 \<longrightarrow>
      fetch m = Inr (0x4805, m\<lparr>reg := (reg m)(R_PC := 0x3001)\<rparr>) \<and>
      cycle m = Inr (m\<lparr>reg := (reg m)(R_R7 := 0x3001, R_PC := 0x3001 + 5)\<rparr>)) \<and>
   (fetch m = Inr (instr, m1) \<longrightarrow>
      (let pc = reg m R_PC + 1;
           off9 = (instr AND 0x1FF) - (if bit instr 8 then 0x200 else 0);
           off11 = (instr AND 0x7FF) - (if bit instr 10 then 0x800 else 0);
           r = unat (drop_bit 9 instr AND 0x7);
           base = unat (drop_bit 6 instr AND 0x7)
       in reg m1 = (reg m)(R_PC := pc) \<and>
          (reg m R_PC \<noteq> MR_KBSR \<longrightarrow>
             instr = memory m (reg m R_PC) \<and> m1 = m\<lparr>reg := (reg m)(R_PC := pc)\<rparr>) \<and>
          (drop_bit 12 instr = OP_BR \<longrightarrow>
             cycle m =
               Inr (if (drop_bit 9 instr AND 0x7) AND reg m R_COND \<noteq> 0
                    then m1\<lparr>reg := (reg m1)(R_PC := pc + off9)\<rparr>
                    else m1)) \<and>
          (drop_bit 12 instr = OP_JSR \<and> bit instr 11 \<longrightarrow>
             cycle m = Inr (m1\<lparr>reg := (reg m1)(R_R7 := pc, R_PC := pc + off11)\<rparr>)) \<and>
          (drop_bit 12 instr = OP_JSR \<and> \<not> bit instr 11 \<longrightarrow>
             cycle m =
               Inr (m1\<lparr>reg := (reg m1)(R_R7 := pc,
                         R_PC := (if base = R_R7 then pc else reg m base))\<rparr>)) \<and>
          (drop_bit 12 instr = OP_LD \<longrightarrow>
             cycle m =
               (case mem_read (pc + off9) m1 of
                  Inl e \<Rightarrow> Inl e
                | Inr (v, m2) \<Rightarrow> Inr (update_flags r (m2\<lparr>reg := (reg m2)(r := v)\<rparr>)))) \<and>
          (drop_bit 12 instr = OP_LDI \<longrightarrow>
             cycle m =
               (case mem_read (pc + off9) m1 of
                  Inl e \<Rightarrow> Inl e
                | Inr (a, m2) \<Rightarrow>
                    (case mem_read a m2 of
                       Inl e \<Rightarrow> Inl e
                     | Inr (v, m3) \<Rightarrow>
                         Inr (update_flags r (m3\<lparr>reg := (reg m3)(r := v)\<rparr>))))) \<and>
          (drop_bit 12 instr = OP_LEA \<longrightarrow>
             cycle m = Inr (update_flags r (m1\<lparr>reg := (reg m1)(r := pc + off9)\<rparr>))) \<and>
          (drop_bit 12 instr = OP_ST \<longrightarrow>
             cycle m = mem_write (pc + off9) (reg m r) m1) \<and>
          (drop_bit 12 instr = OP_STI \<longrightarrow>
             cycle m =
               (case mem_read (pc + off9) m1 of
                  Inl e \<Rightarrow> Inl e
                | Inr (a, m2) \<Rightarrow> mem_write a (reg m r) m2))))"
proof -
  have general: ?thesis if f: "fetch m = Inr (instr, m1)"
    unfolding Let_def
    using jsr_at_0x3000 [of m] fetch_reg [OF f] fetch_word [OF f] fetch_not_kbsr [OF f]
      cycle_br [OF f] cycle_jsr [OF f] cycle_jsrr [OF f] cycle_ld [OF f] cycle_ldi [OF f]
      cycle_lea [OF f] cycle_st [OF f] cycle_sti [OF f]
    by blast
  have "?thesis" if "fetch m \<noteq> Inr (instr, m1)"
    unfolding Let_def using that jsr_at_0x3000 [of m] by blast
  with general show ?thesis by blast
qed


theorem pc_relative_uses_incremented_pc_witness:
  "reg ((power_on [] [])\<lparr>memory := (\<lambda>_. 0)(0x3000 := 0x4805),
                          reg := (\<lambda>_. 0)(R_PC := 0x3000)\<rparr>) R_PC = 0x3000
   \<and> memory ((power_on [] [])\<lparr>memory := (\<lambda>_. 0)(0x3000 := 0x4805),
                               reg := (\<lambda>_. 0)(R_PC := 0x3000)\<rparr>) 0x3000 = 0x4805
   \<and> cycle ((power_on [] [])\<lparr>memory := (\<lambda>_. 0)(0x3000 := 0x4805),
                            reg := (\<lambda>_. 0)(R_PC := 0x3000)\<rparr>)
     = Inr ((power_on [] [])\<lparr>memory := (\<lambda>_. 0)(0x3000 := 0x4805),
                              reg := (\<lambda>_. 0)(R_PC := 0x3006, R_R7 := 0x3001)\<rparr>)
   \<and> cycle ((power_on [] [])\<lparr>memory := (\<lambda>_. 0)(0x3000 := 0x0FFE),
                              reg := (\<lambda>_. 0)(R_PC := 0x3000, R_COND := FL_ZRO)\<rparr>)
     = Inr ((power_on [] [])\<lparr>memory := (\<lambda>_. 0)(0x3000 := 0x0FFE),
                              reg := (\<lambda>_. 0)(R_PC := 0x2FFF, R_COND := FL_ZRO)\<rparr>)
   \<and> cycle ((power_on [] [])\<lparr>memory := (\<lambda>_. 0)(0x3000 := 0xE1FF),
                              reg := (\<lambda>_. 0)(R_PC := 0x3000)\<rparr>)
     = Inr ((power_on [] [])\<lparr>memory := (\<lambda>_. 0)(0x3000 := 0xE1FF),
                              reg := (\<lambda>_. 0)(R_PC := 0x3001, R_R0 := 0x3000,
                                               R_COND := FL_POS)\<rparr>)
   \<and> cycle ((power_on [] [])\<lparr>memory := (\<lambda>_. 0)(0x3000 := 0x2001, 0x3002 := 0x8001),
                              reg := (\<lambda>_. 0)(R_PC := 0x3000)\<rparr>)
     = Inr ((power_on [] [])\<lparr>memory := (\<lambda>_. 0)(0x3000 := 0x2001, 0x3002 := 0x8001),
                              reg := (\<lambda>_. 0)(R_PC := 0x3001, R_R0 := 0x8001,
                                               R_COND := FL_NEG)\<rparr>)
   \<and> cycle ((power_on [] [])\<lparr>memory := (\<lambda>_. 0)(0x3000 := 0x3201),
                              reg := (\<lambda>_. 0)(R_PC := 0x3000, R_R1 := 0x0042)\<rparr>)
     = Inr ((power_on [] [])\<lparr>memory := (\<lambda>_. 0)(0x3000 := 0x3201, 0x3002 := 0x0042),
                              reg := (\<lambda>_. 0)(R_PC := 0x3001, R_R1 := 0x0042)\<rparr>)
   \<and> cycle ((power_on [] [])\<lparr>memory := (\<lambda>_. 0)(0x3000 := 0xA001, 0x3002 := 0x4000,
                                                   0x4000 := 0x0007),
                              reg := (\<lambda>_. 0)(R_PC := 0x3000)\<rparr>)
     = Inr ((power_on [] [])\<lparr>memory := (\<lambda>_. 0)(0x3000 := 0xA001, 0x3002 := 0x4000,
                                                   0x4000 := 0x0007),
                              reg := (\<lambda>_. 0)(R_PC := 0x3001, R_R0 := 0x0007,
                                               R_COND := FL_POS)\<rparr>)
   \<and> cycle ((power_on [] [])\<lparr>memory := (\<lambda>_. 0)(0x3000 := 0xB201, 0x3002 := 0x4000),
                              reg := (\<lambda>_. 0)(R_PC := 0x3000, R_R1 := 0x0042)\<rparr>)
     = Inr ((power_on [] [])\<lparr>memory := (\<lambda>_. 0)(0x3000 := 0xB201, 0x3002 := 0x4000,
                                                   0x4000 := 0x0042),
                              reg := (\<lambda>_. 0)(R_PC := 0x3001, R_R1 := 0x0042)\<rparr>)
   \<and> cycle ((power_on [] [])\<lparr>memory := (\<lambda>_. 0)(0x3000 := 0x4080),
                              reg := (\<lambda>_. 0)(R_PC := 0x3000, R_R2 := 0x5000)\<rparr>)
     = Inr ((power_on [] [])\<lparr>memory := (\<lambda>_. 0)(0x3000 := 0x4080),
                              reg := (\<lambda>_. 0)(R_PC := 0x5000, R_R2 := 0x5000,
                                               R_R7 := 0x3001)\<rparr>)"
proof -
  let ?jsr = "(power_on [] [])\<lparr>memory := (\<lambda>_. 0)(0x3000 := 0x4805),
                               reg := (\<lambda>_. 0)(R_PC := 0x3000)\<rparr>"
  let ?br = "(power_on [] [])\<lparr>memory := (\<lambda>_. 0)(0x3000 := 0x0FFE),
                              reg := (\<lambda>_. 0)(R_PC := 0x3000, R_COND := FL_ZRO)\<rparr>"
  let ?lea = "(power_on [] [])\<lparr>memory := (\<lambda>_. 0)(0x3000 := 0xE1FF),
                               reg := (\<lambda>_. 0)(R_PC := 0x3000)\<rparr>"
  let ?ld = "(power_on [] [])\<lparr>memory := (\<lambda>_. 0)(0x3000 := 0x2001, 0x3002 := 0x8001),
                              reg := (\<lambda>_. 0)(R_PC := 0x3000)\<rparr>"
  let ?st = "(power_on [] [])\<lparr>memory := (\<lambda>_. 0)(0x3000 := 0x3201),
                              reg := (\<lambda>_. 0)(R_PC := 0x3000, R_R1 := 0x0042)\<rparr>"
  let ?ldi = "(power_on [] [])\<lparr>memory := (\<lambda>_. 0)(0x3000 := 0xA001, 0x3002 := 0x4000,
                                                    0x4000 := 0x0007),
                               reg := (\<lambda>_. 0)(R_PC := 0x3000)\<rparr>"
  let ?sti = "(power_on [] [])\<lparr>memory := (\<lambda>_. 0)(0x3000 := 0xB201, 0x3002 := 0x4000),
                               reg := (\<lambda>_. 0)(R_PC := 0x3000, R_R1 := 0x0042)\<rparr>"
  let ?jsrr = "(power_on [] [])\<lparr>memory := (\<lambda>_. 0)(0x3000 := 0x4080),
                                reg := (\<lambda>_. 0)(R_PC := 0x3000, R_R2 := 0x5000)\<rparr>"
  have jsr: "reg ?jsr R_PC = 0x3000 \<and> memory ?jsr 0x3000 = 0x4805"
    by simp
  have ldi: "fetch ?ldi = Inr (0xA001, ?ldi\<lparr>reg := (reg ?ldi)(R_PC := 0x3001)\<rparr>)"
    and sti: "fetch ?sti = Inr (0xB201, ?sti\<lparr>reg := (reg ?sti)(R_PC := 0x3001)\<rparr>)"
    and jsrr: "fetch ?jsrr = Inr (0x4080, ?jsrr\<lparr>reg := (reg ?jsrr)(R_PC := 0x3001)\<rparr>)"
    by (simp_all add: fetch_def mem_read_def mr_defs reg_defs UINT16_MAX_def)
  have ops': "drop_bit 12 (0xA001 :: 16 word) = OP_LDI" "drop_bit 12 (0xB201 :: 16 word) = OP_STI"
    "drop_bit 12 (0x4080 :: 16 word) = OP_JSR" "\<not> bit (0x4080 :: 16 word) 11"
    by (simp_all add: op_defs)
  have c6: "cycle ?ldi = Inr (?ldi\<lparr>reg := (reg ?ldi)(R_PC := 0x3001, R_R0 := 0x0007,
                                                     R_COND := FL_POS)\<rparr>)"
    using pc_relative_uses_incremented_pc [of ?ldi "0xA001"
        "?ldi\<lparr>reg := (reg ?ldi)(R_PC := 0x3001)\<rparr>", THEN conjunct2] ldi ops'
    by (simp add: Let_def reg_defs fl_defs update_flags_def mem_read_def mr_defs UINT16_MAX_def)
  have c7: "cycle ?sti = Inr (?sti\<lparr>memory := (memory ?sti)(0x4000 := 0x0042),
                                    reg := (reg ?sti)(R_PC := 0x3001)\<rparr>)"
    using pc_relative_uses_incremented_pc [of ?sti "0xB201"
        "?sti\<lparr>reg := (reg ?sti)(R_PC := 0x3001)\<rparr>", THEN conjunct2] sti ops'
    by (simp add: Let_def reg_defs mem_read_def mem_write_def mr_defs UINT16_MAX_def)
  have c8: "cycle ?jsrr = Inr (?jsrr\<lparr>reg := (reg ?jsrr)(R_PC := 0x5000, R_R7 := 0x3001)\<rparr>)"
    using pc_relative_uses_incremented_pc [of ?jsrr "0x4080"
        "?jsrr\<lparr>reg := (reg ?jsrr)(R_PC := 0x3001)\<rparr>", THEN conjunct2] jsrr ops'
    by (simp add: Let_def reg_defs fun_upd_twist)
  have br: "fetch ?br = Inr (0x0FFE, ?br\<lparr>reg := (reg ?br)(R_PC := 0x3001)\<rparr>)"
    and lea: "fetch ?lea = Inr (0xE1FF, ?lea\<lparr>reg := (reg ?lea)(R_PC := 0x3001)\<rparr>)"
    and ld: "fetch ?ld = Inr (0x2001, ?ld\<lparr>reg := (reg ?ld)(R_PC := 0x3001)\<rparr>)"
    and st: "fetch ?st = Inr (0x3201, ?st\<lparr>reg := (reg ?st)(R_PC := 0x3001)\<rparr>)"
    by (simp_all add: fetch_def mem_read_def mr_defs reg_defs UINT16_MAX_def)
  have ops: "drop_bit 12 (0x0FFE :: 16 word) = OP_BR" "drop_bit 12 (0xE1FF :: 16 word) = OP_LEA"
    "drop_bit 12 (0x2001 :: 16 word) = OP_LD" "drop_bit 12 (0x3201 :: 16 word) = OP_ST"
    by (simp_all add: op_defs)
  have c1: "cycle ?jsr = Inr (?jsr\<lparr>reg := (reg ?jsr)(R_R7 := 0x3001, R_PC := 0x3001 + 5)\<rparr>)"
    using pc_relative_uses_incremented_pc [of ?jsr, THEN conjunct1] jsr by blast
  have c2: "cycle ?br = Inr (?br\<lparr>reg := (reg ?br)(R_PC := 0x2FFF)\<rparr>)"
    using pc_relative_uses_incremented_pc [of ?br "0x0FFE"
        "?br\<lparr>reg := (reg ?br)(R_PC := 0x3001)\<rparr>", THEN conjunct2] br ops
    by (simp add: Let_def reg_defs fl_defs)
  have c3: "cycle ?lea = Inr (?lea\<lparr>reg := (reg ?lea)(R_PC := 0x3001, R_R0 := 0x3000,
                                                     R_COND := FL_POS)\<rparr>)"
    using pc_relative_uses_incremented_pc [of ?lea "0xE1FF"
        "?lea\<lparr>reg := (reg ?lea)(R_PC := 0x3001)\<rparr>", THEN conjunct2] lea ops
    by (simp add: Let_def reg_defs fl_defs update_flags_def)
  have c4: "cycle ?ld = Inr (?ld\<lparr>reg := (reg ?ld)(R_PC := 0x3001, R_R0 := 0x8001,
                                                   R_COND := FL_NEG)\<rparr>)"
    using pc_relative_uses_incremented_pc [of ?ld "0x2001"
        "?ld\<lparr>reg := (reg ?ld)(R_PC := 0x3001)\<rparr>", THEN conjunct2] ld ops
    by (simp add: Let_def reg_defs fl_defs update_flags_def mem_read_def mr_defs UINT16_MAX_def)
  have c5: "cycle ?st = Inr (?st\<lparr>memory := (memory ?st)(0x3002 := 0x0042),
                                  reg := (reg ?st)(R_PC := 0x3001)\<rparr>)"
    using pc_relative_uses_incremented_pc [of ?st "0x3201"
        "?st\<lparr>reg := (reg ?st)(R_PC := 0x3001)\<rparr>", THEN conjunct2] st ops
    by (simp add: Let_def reg_defs mem_write_def UINT16_MAX_def)
  from c1 c2 c3 c4 c5 c6 c7 c8 show ?thesis
    by (simp add: power_on_def reg_defs fun_upd_twist)
qed

text \<open>
  C10: the fetch reads through \<open>mem_read\<close>. With the PC at the keyboard status address
  it polls the keyboard: when \<^verbatim>\<open>select\<close> reports input the status cell becomes \<open>0x8000\<close>
  and the data cell at \<open>0xFE02\<close> the next byte (\<open>0xFFFF\<close> at the end of the input);
  otherwise the status cell becomes 0. The word that is decoded is the new status cell.
\<close>

theorem fetch_at_kbsr_polls_keyboard:
  "reg m R_PC = MR_KBSR \<Longrightarrow>
     (\<exists>m'. fetch m = Inr (memory m' MR_KBSR, m') \<and>
        reg m' = (reg m)(R_PC := MR_KBSR + 1) \<and>
        memory m' =
          (case select_ready m of
             True # _ \<Rightarrow> (memory m)(MR_KBSR := 0x8000,
                            MR_KBDR := (case stdin m of b # _ \<Rightarrow> ucast b | [] \<Rightarrow> 0xFFFF))
           | _ \<Rightarrow> (memory m)(MR_KBSR := 0)))"
  by (simp add: fetch_def mem_read_def poll_keyboard_memory poll_keyboard_reg UINT16_MAX_def
      mr_defs split: list.splits bool.splits)

theorem fetch_at_kbsr_polls_keyboard_witness:
  "reg ((power_on [0x41] [True])\<lparr>reg := (\<lambda>_. 0)(R_PC := 0xFE00)\<rparr>) R_PC = MR_KBSR
   \<and> (\<exists>m'. fetch ((power_on [0x41] [True])\<lparr>reg := (\<lambda>_. 0)(R_PC := 0xFE00)\<rparr>)
              = Inr (0x8000, m')
          \<and> memory m' = (\<lambda>_. 0)(0xFE00 := 0x8000, 0xFE02 := 0x41))"
  using fetch_at_kbsr_polls_keyboard [of "(power_on [0x41] [True])\<lparr>reg := (\<lambda>_. 0)(R_PC := 0xFE00)\<rparr>"]
  by (auto simp add: power_on_def mr_defs)

subsection \<open>Traps with an unknown vector\<close>

text \<open>
  C4, as the specification states it: a \<open>TRAP\<close> whose vector is none of the six leaves
  every register as it was before the instruction body. \<^verbatim>\<open>reg[R_R7] = reg[R_PC]\<close>
  (line 481) comes before the \<^verbatim>\<open>switch\<close> on the vector, so R7 changes: after the fetch
  of \<open>0xF000\<close> (vector 0) with the PC now at \<open>0x3001\<close> and R7 at 0, the body leaves
  \<open>0x3001\<close> in R7.
\<close>

theorem unknown_trap_changes_r7_counterexample:
  "drop_bit 12 (0xF000 :: 16 word) = OP_TRAP
   \<and> (0xF000 :: 16 word) AND 0xFF
        \<notin> {TRAP_GETC, TRAP_OUT, TRAP_PUTS, TRAP_IN, TRAP_PUTSP, TRAP_HALT}
   \<and> reg ((power_on [] [])\<lparr>reg := (\<lambda>_. 0)(R_PC := 0x3001), running := True\<rparr>) R_R7 = 0
   \<and> execute 0xF000 ((power_on [] [])\<lparr>reg := (\<lambda>_. 0)(R_PC := 0x3001), running := True\<rparr>)
       = Inr ((power_on [] [])\<lparr>reg := (\<lambda>_. 0)(R_PC := 0x3001, R_R7 := 0x3001),
                                running := True\<rparr>)
   \<and> reg ((power_on [] [])\<lparr>reg := (\<lambda>_. 0)(R_PC := 0x3001, R_R7 := 0x3001),
                            running := True\<rparr>) R_R7 = 0x3001"
  by (simp add: execute_def op_trap_def op_defs trap_defs reg_defs power_on_def)

text \<open>
  C4, amended: a \<open>TRAP\<close> whose vector is none of the six sets R7 to the PC (the one the
  fetch has incremented) and changes nothing else: memory, the other registers,
  \<open>running\<close>, input and output are as before the instruction body, and the loop goes on.
\<close>

theorem unknown_trap_sets_r7_only:
  "drop_bit 12 instr = OP_TRAP \<Longrightarrow>
   instr AND 0xFF \<notin> {TRAP_GETC, TRAP_OUT, TRAP_PUTS, TRAP_IN, TRAP_PUTSP, TRAP_HALT} \<Longrightarrow>
     execute instr m = Inr (m\<lparr>reg := (reg m)(R_R7 := reg m R_PC)\<rparr>)"
  by (simp add: execute_def op_defs op_trap_def)

theorem unknown_trap_sets_r7_only_witness:
  "drop_bit 12 (0xF0FF :: 16 word) = OP_TRAP
   \<and> (0xF0FF :: 16 word) AND 0xFF
        \<notin> {TRAP_GETC, TRAP_OUT, TRAP_PUTS, TRAP_IN, TRAP_PUTSP, TRAP_HALT}
   \<and> execute 0xF0FF ((power_on [] [])\<lparr>reg := (\<lambda>_. 0)(R_PC := 0x3001), running := True\<rparr>)
       = Inr ((power_on [] [])\<lparr>reg := (\<lambda>_. 0)(R_PC := 0x3001, R_R7 := 0x3001),
                                running := True\<rparr>)"
  using unknown_trap_sets_r7_only
    [of "0xF0FF" "(power_on [] [])\<lparr>reg := (\<lambda>_. 0)(R_PC := 0x3001), running := True\<rparr>"]
  by (simp add: op_defs trap_defs reg_defs power_on_def)

subsection \<open>Unassigned opcodes\<close>

text \<open>
  C5, as the specification states it: a cycle that fetches a word with opcode \<open>1000\<close> or
  \<open>1101\<close> changes no memory and no register but the PC. The fetch itself goes through
  \<open>mem_read\<close>: with the PC at \<open>0xFE00\<close> and a key ready, the fetch stores \<open>0x8000\<close> in the
  status cell and the byte in the data cell, the fetched word \<open>0x8000\<close> has the opcode
  of \<open>RTI\<close>, and the cycle aborts with both cells changed.
\<close>

theorem illegal_opcode_after_poll_counterexample:
  "memory ((power_on [0x41] [True])\<lparr>reg := (\<lambda>_. 0)(R_PC := 0xFE00), running := True\<rparr>) 0xFE00 = 0
   \<and> fetch ((power_on [0x41] [True])\<lparr>reg := (\<lambda>_. 0)(R_PC := 0xFE00), running := True\<rparr>)
       = Inr (0x8000,
              \<lparr>memory = (\<lambda>_. 0)(0xFE00 := 0x8000, 0xFE02 := 0x41),
               reg = (\<lambda>_. 0)(R_PC := 0xFE01), running = True,
               stdin = [], select_ready = [], stdout = []\<rparr>)
   \<and> drop_bit 12 (0x8000 :: 16 word) = OP_RTI
   \<and> cycle ((power_on [0x41] [True])\<lparr>reg := (\<lambda>_. 0)(R_PC := 0xFE00), running := True\<rparr>)
       = Inl (IllegalOpcode,
              \<lparr>memory = (\<lambda>_. 0)(0xFE00 := 0x8000, 0xFE02 := 0x41),
               reg = (\<lambda>_. 0)(R_PC := 0xFE01), running = True,
               stdin = [], select_ready = [], stdout = []\<rparr>)
   \<and> memory \<lparr>memory = (\<lambda>_. 0)(0xFE00 := 0x8000, 0xFE02 := 0x41),
              reg = (\<lambda>_. 0)(R_PC := 0xFE01), running = True,
              stdin = [], select_ready = [], stdout = []\<rparr> 0xFE00 = (0x8000 :: 16 word)"
  by (simp add: cycle_def fetch_def mem_read_def poll_keyboard_def check_key_def getchar_def
      execute_def op_defs mr_defs reg_defs power_on_def UINT16_MAX_def)

text \<open>
  C5, amended: when the fetched word has opcode \<open>1000\<close> or \<open>1101\<close> the instruction body
  changes nothing and the cycle stops with \<open>IllegalOpcode\<close> in the state the fetch left;
  the run stops with it. That state differs from the one before the cycle in the PC,
  which is one more, and in nothing else unless the PC was the keyboard status
  address (then the poll of the fetch has also been done); no other register differs
  in any case.
\<close>

theorem illegal_opcode_aborts:
  "drop_bit 12 instr \<in> {OP_RES, OP_RTI} \<Longrightarrow> fetch m = Inr (instr, m1) \<Longrightarrow>
     execute instr m1 = Inl (IllegalOpcode, m1) \<and>
     cycle m = Inl (IllegalOpcode, m1) \<and>
     reg m1 = (reg m)(R_PC := reg m R_PC + 1) \<and>
     (reg m R_PC \<noteq> MR_KBSR \<longrightarrow> m1 = m\<lparr>reg := (reg m)(R_PC := reg m R_PC + 1)\<rparr>) \<and>
     (running m \<longrightarrow> run (Suc n) m = Inl (IllegalOpcode, m1))"
proof -
  assume op: "drop_bit 12 instr \<in> {OP_RES, OP_RTI}" and f: "fetch m = Inr (instr, m1)"
  have e: "execute instr m1 = Inl (IllegalOpcode, m1)"
    using op by (auto simp add: execute_def op_defs)
  have c: "cycle m = Inl (IllegalOpcode, m1)"
    using e f by (simp add: cycle_def)
  show ?thesis
    using e c f by (simp add: fetch_reg fetch_not_kbsr)
qed

theorem illegal_opcode_aborts_witness:
  "drop_bit 12 (0xD000 :: 16 word) \<in> {OP_RES, OP_RTI}
   \<and> fetch ((power_on [] [])\<lparr>memory := (\<lambda>_. 0)(0x3000 := 0xD000),
                              reg := (\<lambda>_. 0)(R_PC := 0x3000), running := True\<rparr>)
       = Inr (0xD000, (power_on [] [])\<lparr>memory := (\<lambda>_. 0)(0x3000 := 0xD000),
                                       reg := (\<lambda>_. 0)(R_PC := 0x3001), running := True\<rparr>)
   \<and> reg ((power_on [] [])\<lparr>memory := (\<lambda>_. 0)(0x3000 := 0xD000),
                            reg := (\<lambda>_. 0)(R_PC := 0x3000), running := True\<rparr>) R_PC \<noteq> MR_KBSR
   \<and> running ((power_on [] [])\<lparr>memory := (\<lambda>_. 0)(0x3000 := 0xD000),
                                reg := (\<lambda>_. 0)(R_PC := 0x3000), running := True\<rparr>)
   \<and> run (Suc 0) ((power_on [] [])\<lparr>memory := (\<lambda>_. 0)(0x3000 := 0xD000),
                                   reg := (\<lambda>_. 0)(R_PC := 0x3000), running := True\<rparr>)
       = Inl (IllegalOpcode,
              (power_on [] [])\<lparr>memory := (\<lambda>_. 0)(0x3000 := 0xD000),
                               reg := (\<lambda>_. 0)(R_PC := 0x3001), running := True\<rparr>)"
proof -
  let ?m = "(power_on [] [])\<lparr>memory := (\<lambda>_. 0)(0x3000 := 0xD000),
                             reg := (\<lambda>_. 0)(R_PC := 0x3000), running := True\<rparr>"
  let ?m1 = "(power_on [] [])\<lparr>memory := (\<lambda>_. 0)(0x3000 := 0xD000),
                              reg := (\<lambda>_. 0)(R_PC := 0x3001), running := True\<rparr>"
  have op: "drop_bit 12 (0xD000 :: 16 word) \<in> {OP_RES, OP_RTI}"
    by (simp add: op_defs)
  have f: "fetch ?m = Inr (0xD000, ?m1)"
    by (simp add: fetch_def mem_read_def mr_defs reg_defs power_on_def UINT16_MAX_def)
  have pc: "reg ?m R_PC \<noteq> MR_KBSR" and r: "running ?m"
    by (simp_all add: mr_defs)
  from illegal_opcode_aborts [OF op f, of 0] r have "run (Suc 0) ?m = Inl (IllegalOpcode, ?m1)"
    by blast
  with op f pc r show ?thesis by blast
qed


subsection \<open>Byte order\<close>

lemma swap16_le16: "swap16 (le16 b0 b1) = push_bit 8 (ucast b0) OR ucast b1"
  unfolding swap16_def le16_def
  by (rule bit_word_eqI) (auto simp add: bit_simps dest: bit_imp_le_length)

subsection \<open>The condition register along a run\<close>

lemma update_flags_in:
  "reg (update_flags r m) R_COND \<in> {FL_POS, FL_ZRO, FL_NEG}"
  by (simp add: update_flags_def)

lemma op_add_cond: "reg (op_add instr m) R_COND \<in> {FL_POS, FL_ZRO, FL_NEG}"
  unfolding op_add_def Let_def by (rule update_flags_in)

lemma op_and_cond: "reg (op_and instr m) R_COND \<in> {FL_POS, FL_ZRO, FL_NEG}"
  unfolding op_and_def Let_def by (rule update_flags_in)

lemma op_not_cond: "reg (op_not instr m) R_COND \<in> {FL_POS, FL_ZRO, FL_NEG}"
  unfolding op_not_def Let_def by (rule update_flags_in)

lemma op_lea_cond: "reg (op_lea instr m) R_COND \<in> {FL_POS, FL_ZRO, FL_NEG}"
  unfolding op_lea_def Let_def by (rule update_flags_in)

lemma op_br_cond: "reg (op_br instr m) R_COND = reg m R_COND"
  by (simp add: op_br_def Let_def reg_defs)

lemma op_jmp_cond: "reg (op_jmp instr m) R_COND = reg m R_COND"
  by (simp add: op_jmp_def Let_def reg_defs)

lemma op_jsr_cond: "reg (op_jsr instr m) R_COND = reg m R_COND"
  by (simp add: op_jsr_def Let_def reg_defs)

lemma op_ld_cond:
  assumes "op_ld instr m = Inr m'"
  shows "reg m' R_COND \<in> {FL_POS, FL_ZRO, FL_NEG}"
proof -
  from assms obtain r m1 where "m' = update_flags r m1"
    unfolding op_ld_def Let_def by (auto split: sum.splits prod.splits)
  then show ?thesis by (simp only: update_flags_in)
qed

lemma op_ldi_cond:
  assumes "op_ldi instr m = Inr m'"
  shows "reg m' R_COND \<in> {FL_POS, FL_ZRO, FL_NEG}"
proof -
  from assms obtain r m1 where "m' = update_flags r m1"
    unfolding op_ldi_def Let_def by (auto split: sum.splits prod.splits)
  then show ?thesis by (simp only: update_flags_in)
qed

lemma op_ldr_cond:
  assumes "op_ldr instr m = Inr m'"
  shows "reg m' R_COND \<in> {FL_POS, FL_ZRO, FL_NEG}"
proof -
  from assms obtain r m1 where "m' = update_flags r m1"
    unfolding op_ldr_def Let_def by (auto split: sum.splits prod.splits)
  then show ?thesis by (simp only: update_flags_in)
qed

lemma op_st_cond: "op_st instr m = Inr m' \<Longrightarrow> reg m' R_COND = reg m R_COND"
  by (auto simp add: op_st_def Let_def dest: mem_write_reg)

lemma op_sti_cond: "op_sti instr m = Inr m' \<Longrightarrow> reg m' R_COND = reg m R_COND"
  by (auto simp add: op_sti_def Let_def dest!: mem_write_reg mem_read_reg
      split: sum.splits prod.splits)

lemma op_str_cond: "op_str instr m = Inr m' \<Longrightarrow> reg m' R_COND = reg m R_COND"
  by (auto simp add: op_str_def Let_def dest: mem_write_reg)

lemma puts_loop_reg: "puts_loop i m = Inr m' \<Longrightarrow> reg m' = reg m"
proof (induction i m rule: puts_loop.induct)
  case (1 i m)
  show ?case
  proof (cases "i < UINT16_MAX \<and> memory m (of_nat i) \<noteq> 0")
    case True
    with "1.prems" have "puts_loop (Suc i) (putc (ucast (memory m (of_nat i))) m) = Inr m'"
      by (simp add: puts_loop.simps [of i m])
    with True "1.IH" have "reg m' = reg (putc (ucast (memory m (of_nat i))) m)"
      by simp
    then show ?thesis by (simp add: putc_def)
  next
    case False
    with "1.prems" show ?thesis
      by (auto simp add: puts_loop.simps [of i m] split: if_splits)
  qed
qed

lemma putsp_loop_reg: "putsp_loop i m = Inr m' \<Longrightarrow> reg m' = reg m"
proof (induction i m rule: putsp_loop.induct)
  case (1 i m)
  let ?m2 = "(if (ucast (drop_bit 8 (memory m (of_nat i))) :: 8 word) \<noteq> 0
              then putc (ucast (drop_bit 8 (memory m (of_nat i))))
                     (putc (ucast (memory m (of_nat i) AND 0xFF)) m)
              else putc (ucast (memory m (of_nat i) AND 0xFF)) m)"
  show ?case
  proof (cases "i < UINT16_MAX \<and> memory m (of_nat i) \<noteq> 0")
    case True
    with "1.prems" have "putsp_loop (Suc i) ?m2 = Inr m'"
      by (simp add: putsp_loop.simps [of i m] Let_def)
    with True "1.IH" have "reg m' = reg ?m2"
      by (simp add: Let_def)
    then show ?thesis by (simp add: putc_def)
  next
    case False
    with "1.prems" show ?thesis
      by (auto simp add: putsp_loop.simps [of i m] split: if_splits)
  qed
qed

lemma op_trap_cond: "op_trap instr m = Inr m' \<Longrightarrow> reg m' R_COND = reg m R_COND"
  by (auto simp add: op_trap_def Let_def getchar_def putc_def print_def reg_defs
      dest!: puts_loop_reg putsp_loop_reg split: if_splits list.splits)

lemma execute_cond:
  "execute instr m = Inr m' \<Longrightarrow>
     reg m' R_COND \<in> {FL_POS, FL_ZRO, FL_NEG} \<or> reg m' R_COND = reg m R_COND"
  unfolding execute_def Let_def
  using op_add_cond [of instr m] op_and_cond [of instr m] op_not_cond [of instr m]
    op_lea_cond [of instr m] op_br_cond [of instr m] op_jmp_cond [of instr m]
    op_jsr_cond [of instr m] op_ld_cond [of instr m m'] op_ldi_cond [of instr m m']
    op_ldr_cond [of instr m m'] op_st_cond [of instr m m'] op_sti_cond [of instr m m']
    op_str_cond [of instr m m'] op_trap_cond [of instr m m']
  by (auto split: if_splits)

lemma cycle_cond:
  "cycle m = Inr m' \<Longrightarrow>
     reg m' R_COND \<in> {FL_POS, FL_ZRO, FL_NEG} \<or> reg m' R_COND = reg m R_COND"
  by (auto simp add: cycle_def reg_defs split: sum.splits prod.splits
      dest!: fetch_reg execute_cond)

lemma run_cond:
  "run n m = Inr m' \<Longrightarrow>
     reg m' R_COND \<in> {FL_POS, FL_ZRO, FL_NEG} \<or> reg m' R_COND = reg m R_COND"
proof (induction n arbitrary: m)
  case 0
  then show ?case by simp
next
  case (Suc n)
  show ?case
  proof (cases "running m")
    case False
    with Suc.prems show ?thesis by simp
  next
    case True
    with Suc.prems obtain m1 where c: "cycle m = Inr m1" and r: "run n m1 = Inr m'"
      by (auto split: sum.splits)
    from Suc.IH [OF r] cycle_cond [OF c] show ?thesis by auto
  qed
qed

lemma read_image_file_reg: "reg (read_image_file file m) = reg m"
  by (simp add: read_image_file_def Let_def split: list.splits)

lemma load_images_reg: "load_images args m = Inr m' \<Longrightarrow> reg m' = reg m"
proof (induction args arbitrary: m)
  case Nil
  then show ?case by simp
next
  case (Cons a args)
  obtain path img where a: "a = (path, img)" by (cases a)
  from Cons.prems a obtain bs where "load_images args (read_image_file bs m) = Inr m'"
    by (auto simp add: read_image_def split: option.splits if_splits)
  with Cons.IH show ?case by (simp add: read_image_file_reg)
qed

lemma startup_reg:
  "startup args inp sel = Inr m0 \<Longrightarrow> reg m0 = (\<lambda>_. 0)(R_PC := PC_START)"
  by (auto simp add: startup_def enter_loop_def power_on_def
      split: if_splits sum.splits dest!: load_images_reg)

text \<open>
  C3, as the specification states it: from the start of the loop on, COND is one of
  \<open>FL_POS\<close>, \<open>FL_ZRO\<close>, \<open>FL_NEG\<close>. \<^verbatim>\<open>main\<close> sets the PC and no other register before the
  loop, and \<^verbatim>\<open>reg\<close> starts as zero: after loading an image that holds one \<open>HALT\<close> at
  \<open>0x3000\<close>, the loop begins with COND = 0, which is none of the three.
\<close>

theorem cond_zero_at_loop_start_counterexample:
  "startup [(''halt.obj'', Some [0x30, 0x00, 0xF0, 0x25])] [] []
     = Inr \<lparr>memory = (\<lambda>_. 0)(0x3000 := 0xF025), reg = (\<lambda>_. 0)(R_PC := 0x3000),
            running = True, stdin = [], select_ready = [], stdout = []\<rparr>
   \<and> reg \<lparr>memory = (\<lambda>_. 0)(0x3000 := 0xF025), reg = (\<lambda>_. 0)(R_PC := 0x3000),
           running = True, stdin = [], select_ready = [], stdout = []\<rparr> R_COND = 0
   \<and> reg \<lparr>memory = (\<lambda>_. 0)(0x3000 := 0xF025), reg = (\<lambda>_. 0)(R_PC := 0x3000),
           running = True, stdin = [], select_ready = [], stdout = []\<rparr> R_COND
        \<notin> {FL_POS, FL_ZRO, FL_NEG}"
  by (simp add: startup_def read_image_def read_image_file_def enter_loop_def power_on_def
      swap16_le16 UINT16_MAX_def PC_START_def reg_defs fl_defs)

text \<open>
  C3, amended: the loop begins with COND = 0, and in every state the run reaches COND
  is 0 or one of \<open>FL_POS\<close>, \<open>FL_ZRO\<close>, \<open>FL_NEG\<close>; once it is not 0 it is one of the three
  in every later state.
\<close>

theorem cond_along_run:
  "startup args inp sel = Inr m0 \<Longrightarrow> run n m0 = Inr m \<Longrightarrow>
     reg m0 R_COND = 0 \<and>
     reg m R_COND \<in> {0, FL_POS, FL_ZRO, FL_NEG} \<and>
     (reg m R_COND \<noteq> 0 \<longrightarrow>
        (\<forall>k m'. run k m = Inr m' \<longrightarrow> reg m' R_COND \<in> {FL_POS, FL_ZRO, FL_NEG}))"
proof -
  assume s: "startup args inp sel = Inr m0" and r: "run n m0 = Inr m"
  have z: "reg m0 R_COND = 0"
    using startup_reg [OF s] by (simp add: reg_defs)
  have i: "reg m R_COND \<in> {0, FL_POS, FL_ZRO, FL_NEG}"
    using run_cond [OF r] z by auto
  have "reg m' R_COND \<in> {FL_POS, FL_ZRO, FL_NEG}"
    if "reg m R_COND \<noteq> 0" and "run k m = Inr m'" for k m'
    using run_cond [OF that(2)] i that(1) by auto
  with z i show ?thesis by blast
qed

theorem cond_along_run_witness:
  "startup [(''add.obj'', Some [0x30, 0x00, 0x10, 0x20, 0xF0, 0x25])] [] []
     = Inr \<lparr>memory = (\<lambda>_. 0)(0x3000 := 0x1020, 0x3001 := 0xF025),
            reg = (\<lambda>_. 0)(R_PC := 0x3000),
            running = True, stdin = [], select_ready = [], stdout = []\<rparr>
   \<and> run (Suc 0) \<lparr>memory = (\<lambda>_. 0)(0x3000 := 0x1020, 0x3001 := 0xF025),
                   reg = (\<lambda>_. 0)(R_PC := 0x3000),
                   running = True, stdin = [], select_ready = [], stdout = []\<rparr>
     = Inr \<lparr>memory = (\<lambda>_. 0)(0x3000 := 0x1020, 0x3001 := 0xF025),
            reg = (\<lambda>_. 0)(R_PC := 0x3001, R_R0 := 0, R_COND := FL_ZRO),
            running = True, stdin = [], select_ready = [], stdout = []\<rparr>
   \<and> reg \<lparr>memory = (\<lambda>_. 0)(0x3000 := 0x1020, 0x3001 := 0xF025),
           reg = (\<lambda>_. 0)(R_PC := 0x3001, R_R0 := 0, R_COND := FL_ZRO),
           running = True, stdin = [], select_ready = [], stdout = []\<rparr> R_COND
        \<in> {0, FL_POS, FL_ZRO, FL_NEG}"
proof -
  let ?m0 = "\<lparr>memory = (\<lambda>_. 0)(0x3000 := 0x1020, 0x3001 := 0xF025),
              reg = (\<lambda>_. 0)(R_PC := 0x3000),
              running = True, stdin = [], select_ready = [], stdout = []\<rparr>"
  let ?m1 = "\<lparr>memory = (\<lambda>_. 0)(0x3000 := 0x1020, 0x3001 := 0xF025),
              reg = (\<lambda>_. 0)(R_PC := 0x3001, R_R0 := 0, R_COND := FL_ZRO),
              running = True, stdin = [], select_ready = [], stdout = []\<rparr>"
  have s: "startup [(''add.obj'', Some [0x30, 0x00, 0x10, 0x20, 0xF0, 0x25])] [] [] = Inr ?m0"
    by (simp add: startup_def read_image_def read_image_file_def enter_loop_def power_on_def
        swap16_le16 UINT16_MAX_def PC_START_def reg_defs)
  have r: "run (Suc 0) ?m0 = Inr ?m1"
    by (simp add: cycle_def fetch_def mem_read_def execute_def op_add_def update_flags_def
        sign_extend_def op_defs mr_defs reg_defs UINT16_MAX_def)
  from cond_along_run [OF s r] have "reg ?m1 R_COND \<in> {0, FL_POS, FL_ZRO, FL_NEG}"
    by blast
  with s r show ?thesis by blast
qed


subsection \<open>Loading an image\<close>

lemma be16_bytes:
  "push_bit 8 (ucast (ucast (drop_bit 8 w) :: 8 word)) OR ucast (ucast w :: 8 word)
     = (w :: 16 word)"
  by (rule bit_word_eqI) (auto simp add: bit_simps)

lemma swap16_be: "swap16 (le16 (ucast (drop_bit 8 w)) (ucast w)) = w"
  by (simp add: swap16_le16 be16_bytes)

lemma items16_be:
  "items16 (concat (map be_bytes ws)) = map (\<lambda>w. le16 (ucast (drop_bit 8 w)) (ucast w)) ws"
  by (induction ws) (simp_all add: be_bytes_def)

lemma length_be: "length (concat (map be_bytes ws)) = 2 * length ws"
  by (induction ws) (simp_all add: be_bytes_def)

lemma of_nat_eq_iff16: "(of_nat i = (a :: 16 word)) = (unat a = i)" if "i < 65536"
proof
  assume "of_nat i = a"
  then show "unat a = i" using that by (auto simp add: unat_of_nat)
next
  assume "unat a = i"
  then show "of_nat i = a" by auto
qed

lemma eq_of_nat_iff16: "((a :: 16 word) = of_nat i) = (unat a = i)" if "i < 65536"
  using of_nat_eq_iff16 [OF that, of a] by auto

lemma fread_store_at:
  "i + length ws \<le> 65536 \<Longrightarrow>
   fread_store i ws mem a = (if i \<le> unat a \<and> unat a < i + length ws then ws ! (unat a - i) else mem a)"
proof (induction ws arbitrary: i mem)
  case Nil
  then show ?case by auto
next
  case (Cons w ws)
  then have "fread_store (Suc i) ws (mem(of_nat i := w)) a =
     (if Suc i \<le> unat a \<and> unat a < Suc i + length ws then ws ! (unat a - Suc i) else (mem(of_nat i := w)) a)"
    by simp
  moreover have "i < 65536" using Cons.prems by simp
  ultimately show ?case
    by (auto simp add: eq_of_nat_iff16 nth_Cons' Suc_diff_Suc)
qed

lemma swap_loop_at:
  "i + n \<le> 65536 \<Longrightarrow>
   swap_loop n i mem a = (if i \<le> unat a \<and> unat a < i + n then swap16 (mem a) else mem a)"
proof (induction n arbitrary: i mem)
  case 0
  then show ?case by auto
next
  case (Suc n)
  then have "swap_loop n (Suc i) (mem(of_nat i := swap16 (mem (of_nat i)))) a =
    (if Suc i \<le> unat a \<and> unat a < Suc i + n then swap16 ((mem(of_nat i := swap16 (mem (of_nat i)))) a)
     else (mem(of_nat i := swap16 (mem (of_nat i)))) a)"
    by simp
  moreover have "i < 65536" using Suc.prems by simp
  ultimately show ?case
    by (auto simp add: eq_of_nat_iff16)
qed

lemma max_read_unat: "unat ((of_nat UINT16_MAX :: 16 word) - origin) = UINT16_MAX - unat origin"
  apply (simp add: UINT16_MAX_def)
  apply (subst unat_sub)
  apply (simp_all add: word_le_nat_alt)
  using unsigned_less[of origin, where 'a=nat] apply simp
  done


lemma read_image_file_image:
  "read_image_file (image_file origin ws) m =
     m\<lparr>memory := (\<lambda>a.
          if unat origin \<le> unat a
             \<and> unat a < unat origin + min (length ws) (UINT16_MAX - unat origin)
          then ws ! (unat a - unat origin)
          else memory m a)\<rparr>"
proof -
  let ?native = "\<lambda>w :: 16 word. le16 (ucast (drop_bit 8 w)) (ucast w)"
  let ?k = "UINT16_MAX - unat origin"
  let ?items = "take ?k (map ?native ws)"
  let ?read = "min (length ws) ?k"
  have len: "length ?items = ?read" by simp
  have o: "unat origin < 65536"
    using unsigned_less [of origin, where 'a = nat] by simp
  have bound': "unat origin + ?read \<le> 65536"
    using o unfolding UINT16_MAX_def by linarith
  have bound: "unat origin + length ?items \<le> 65536"
    using bound' by (simp only: len)
  have fr: "fread_store (unat origin) ?items (memory m) a =
      (if unat origin \<le> unat a \<and> unat a < unat origin + ?read
       then ?items ! (unat a - unat origin) else memory m a)" for a
    using fread_store_at [OF bound, of "memory m" a] unfolding len .
  have sw: "swap_loop ?read (unat origin) mem a =
      (if unat origin \<le> unat a \<and> unat a < unat origin + ?read
       then swap16 (mem a) else mem a)" for mem a
    by (rule swap_loop_at [OF bound'])
  have mem: "swap_loop ?read (unat origin) (fread_store (unat origin) ?items (memory m)) a =
      (if unat origin \<le> unat a \<and> unat a < unat origin + ?read
       then ws ! (unat a - unat origin) else memory m a)" for a
  proof (cases "unat origin \<le> unat a \<and> unat a < unat origin + ?read")
    case True
    then have j: "unat a - unat origin < ?read" by auto
    then have "?items ! (unat a - unat origin) = ?native (ws ! (unat a - unat origin))"
      by simp
    then have "swap16 (?items ! (unat a - unat origin)) = ws ! (unat a - unat origin)"
      by (simp only: swap16_be)
    with True show ?thesis
      by (simp only: sw fr if_True simp_thms)
  next
    case False
    then show ?thesis
      by (simp only: sw fr if_False simp_thms)
  qed
  have "read_image_file (image_file origin ws) m =
      m\<lparr>memory := swap_loop ?read (unat origin)
                      (fread_store (unat origin) ?items (memory m))\<rparr>"
    by (simp add: read_image_file_def image_file_def be_bytes_def swap16_be items16_be
        length_be max_read_unat Let_def)
  also have "swap_loop ?read (unat origin) (fread_store (unat origin) ?items (memory m)) =
      (\<lambda>a. if unat origin \<le> unat a \<and> unat a < unat origin + ?read
           then ws ! (unat a - unat origin) else memory m a)"
    by (rule ext) (rule mem)
  finally show ?thesis .
qed

text \<open>Files that are not a sequence of whole words: nothing is checked, the loader
  returns, and \<^verbatim>\<open>main\<close> goes on.\<close>

lemma read_image_file_short: "length bs < 2 \<Longrightarrow> read_image_file bs m = m"
  by (cases bs rule: items16.cases) (simp_all add: read_image_file_def)

lemma read_image_file_trailing_byte:
  "read_image_file [0x30, 0x00, 0x12, 0x34, 0x56] m =
     m\<lparr>memory := (memory m)(0x3000 := 0x1234,
                                0x3001 := (memory m 0x3001 AND 0xFF00) OR 0x56)\<rparr>"
  by (simp add: read_image_file_def Let_def swap16_le16 fread_partial_def UINT16_MAX_def
      fun_upd_twist)

lemma image_roundtrip_in_array:
  assumes "unat origin + length ws \<le> UINT16_MAX" and "i < length ws"
  shows "memory (read_image_file (image_file origin ws) m) (origin + of_nat i) = ws ! i"
proof -
  have "unat (origin + of_nat i) = unat origin + i"
    using assms by (simp add: unat_word_ariths unat_of_nat UINT16_MAX_def)
  with assms show ?thesis
    by (simp add: read_image_file_image)
qed

lemma image_never_reaches_last_address:
  "memory (read_image_file (image_file origin ws) m) 0xFFFF = memory m 0xFFFF"
proof -
  have "\<not> (unat origin \<le> 65535
            \<and> 65535 < unat origin + min (length ws) (65535 - unat origin))"
    by linarith
  then show ?thesis
    by (auto simp add: read_image_file_image UINT16_MAX_def)
qed

text \<open>
  C2: the specification has the loader place the data words at the addresses from the
  origin up to \<open>65535\<close>. \<^verbatim>\<open>max_read = UINT16_MAX - origin\<close> (line 154) is one less than
  the number of addresses from the origin to \<open>65535\<close>, so the word that belongs at
  \<open>0xFFFF\<close> is never loaded: an image with origin \<open>0xFFFF\<close> and data words leaves the
  machine as it was. (Up to \<open>0xFFFE\<close> the words arrive as specified:
  \<open>read_image_file_image\<close>, \<open>image_roundtrip_in_array\<close>.)
\<close>

theorem image_word_for_last_address_dropped:
  "image_file 0xFFFF [0x1234] = [0xFF, 0xFF, 0x12, 0x34] \<and>
   read_image_file [0xFF, 0xFF, 0x12, 0x34] m = m \<and>
   read_image_file (image_file 0xFFFF (w # ws)) m = m"
proof -
  have bytes: "image_file 0xFFFF [0x1234] = [0xFF, 0xFF, 0x12, 0x34]"
    by (simp add: image_file_def be_bytes_def)
  have same: "(\<lambda>a. if (65535 :: nat) \<le> unat a \<and> unat a < 65535
                 then f a else memory m a) = memory m"
    for f :: "16 word \<Rightarrow> 16 word"
    by (rule ext) auto
  have none: "read_image_file (image_file 0xFFFF xs) m = m" for xs
    by (simp add: read_image_file_image UINT16_MAX_def same)
  from none [of "[0x1234]"] none [of "w # ws"] bytes show ?thesis
    by simp
qed


end
